theory Spec2Isabelle
  imports Complex_Main
begin

section \<open>Synthetic Q&A generation: data model\<close>

text \<open>
  The theory embeds the question-answer generation engine of
  \<^verbatim>\<open>src/synthetic_data_generation\<close>: the context builder and the retry logic of
  \<^verbatim>\<open>generators/base_generator.py\<close>, the generation pipeline of
  \<^verbatim>\<open>generators/single_document_grounding\<close>, the response-length sampler of
  \<^verbatim>\<open>diversity/diversity_generator.py\<close> and the batch allocator of
  \<^verbatim>\<open>qa_factory/qa_factory.py\<close>.

  Python \<^verbatim>\<open>str\<close> is \<^typ>\<open>string\<close> (non-ASCII characters of the prompt texts are
  their UTF-8 bytes) and Python \<^verbatim>\<open>int\<close> is \<^typ>\<open>int\<close>. A Python \<^verbatim>\<open>float\<close> is an
  IEEE 754 binary64 number, modelled below with its rounding, its infinities and NaN.
\<close>

subsection \<open>Python floats\<close>

text \<open>
  A float is a finite number, an infinity or NaN. The finite values a program produces
  are the binary64 numbers; the sign of zero, which no operation of the engine observes,
  is not kept.
\<close>

datatype pyfloat = Finite real | PosInf | NegInf | NaN

text \<open>
  The binary exponent of a positive number \<open>x\<close>: the integer \<open>e\<close> with
  \<open>2 powi e \<le> x\<close> and \<open>x < 2 powi (e + 1)\<close>.
\<close>

function binary_exponent :: "real \<Rightarrow> int" where
  "binary_exponent x =
     (if x \<le> 0 then 0
      else if 2 \<le> x then binary_exponent (x / 2) + 1
      else if x < 1 then binary_exponent (2 * x) - 1
      else 0)"
  by pat_completeness auto
termination
proof (relation "measure (\<lambda>x. nat \<bar>\<lfloor>log 2 x\<rfloor>\<bar>)")
  show "wf (measure (\<lambda>x. nat \<bar>\<lfloor>log 2 x\<rfloor>\<bar>))" by simp
next
  fix x :: real
  assume "\<not> x \<le> 0" and x: "2 \<le> x"
  have "log 2 (x / 2) = log 2 x - 1" using x by (simp add: log_divide)
  moreover have "1 \<le> log 2 x" using x by (simp add: le_log_iff)
  then have "1 \<le> \<lfloor>log 2 x\<rfloor>" by (simp add: le_floor_iff)
  ultimately show "(x / 2, x) \<in> measure (\<lambda>x. nat \<bar>\<lfloor>log 2 x\<rfloor>\<bar>)" by simp
next
  fix x :: real
  assume x: "\<not> x \<le> 0" "\<not> 2 \<le> x" "x < 1"
  have "log 2 (2 * x) = 1 + log 2 x" using x by (simp add: log_mult)
  moreover have "log 2 x < 0" using x by simp
  then have "\<lfloor>log 2 x\<rfloor> \<le> - 1" by (simp add: floor_le_iff)
  ultimately have "\<bar>\<lfloor>log 2 (2 * x)\<rfloor>\<bar> < \<bar>\<lfloor>log 2 x\<rfloor>\<bar>" by simp
  then show "(2 * x, x) \<in> measure (\<lambda>x. nat \<bar>\<lfloor>log 2 x\<rfloor>\<bar>)" by simp
qed

declare binary_exponent.simps [simp del]

text \<open>Rounding to the nearest integer, a tie going to the even one.\<close>

definition round_half_even :: "real \<Rightarrow> int" where
  "round_half_even q =
     (let f = \<lfloor>q\<rfloor>; d = q - of_int f
      in if d < 1 / 2 then f else if 1 / 2 < d then f + 1 else if even f then f else f + 1)"

text \<open>
  Rounding a real number to binary64, to nearest with ties to even: the number is
  rounded to a multiple of the unit in the last place of its binade (of the smallest
  normal binade for a subnormal number), that is to 53 significant bits, and a result of
  magnitude \<open>2 ^ 1024\<close> or more is an infinity.
\<close>

definition round64 :: "real \<Rightarrow> pyfloat" where
  "round64 x =
     (if x = 0 then Finite 0
      else let u = 2 powi (max (binary_exponent \<bar>x\<bar>) (- 1022) - 52);
               r = of_int (round_half_even (x / u)) * u
           in if 2 ^ 1024 \<le> \<bar>r\<bar> then (if 0 < x then PosInf else NegInf) else Finite r)"

text \<open>The arithmetic of IEEE 754: the exact result, rounded.\<close>

fun float_neg :: "pyfloat \<Rightarrow> pyfloat" where
  "float_neg (Finite a) = Finite (- a)"
| "float_neg PosInf = NegInf"
| "float_neg NegInf = PosInf"
| "float_neg NaN = NaN"

fun float_abs :: "pyfloat \<Rightarrow> pyfloat" where
  "float_abs (Finite a) = Finite \<bar>a\<bar>"
| "float_abs PosInf = PosInf"
| "float_abs NegInf = PosInf"
| "float_abs NaN = NaN"

fun float_add :: "pyfloat \<Rightarrow> pyfloat \<Rightarrow> pyfloat" where
  "float_add (Finite a) (Finite b) = round64 (a + b)"
| "float_add NaN b = NaN"
| "float_add a NaN = NaN"
| "float_add PosInf NegInf = NaN"
| "float_add NegInf PosInf = NaN"
| "float_add PosInf b = PosInf"
| "float_add a PosInf = PosInf"
| "float_add NegInf b = NegInf"
| "float_add a NegInf = NegInf"

definition float_sub :: "pyfloat \<Rightarrow> pyfloat \<Rightarrow> pyfloat" where
  "float_sub a b = float_add a (float_neg b)"

text \<open>An infinity times a finite number: NaN for zero, else the infinity of the sign.\<close>

definition signed_infinity :: "bool \<Rightarrow> real \<Rightarrow> pyfloat" where
  "signed_infinity positive b =
     (if b = 0 then NaN else if (0 < b) = positive then PosInf else NegInf)"

fun float_mul :: "pyfloat \<Rightarrow> pyfloat \<Rightarrow> pyfloat" where
  "float_mul (Finite a) (Finite b) = round64 (a * b)"
| "float_mul NaN b = NaN"
| "float_mul a NaN = NaN"
| "float_mul PosInf (Finite b) = signed_infinity True b"
| "float_mul NegInf (Finite b) = signed_infinity False b"
| "float_mul (Finite a) PosInf = signed_infinity True a"
| "float_mul (Finite a) NegInf = signed_infinity False a"
| "float_mul PosInf PosInf = PosInf"
| "float_mul NegInf NegInf = PosInf"
| "float_mul PosInf NegInf = NegInf"
| "float_mul NegInf PosInf = NegInf"

text \<open>
  Division; a finite number over zero is NaN for zero and else an infinity of the sign of
  the numerator, the zero being taken as positive.
\<close>

fun float_div :: "pyfloat \<Rightarrow> pyfloat \<Rightarrow> pyfloat" where
  "float_div (Finite a) (Finite b) =
     (if b = 0 then signed_infinity True a else round64 (a / b))"
| "float_div NaN b = NaN"
| "float_div a NaN = NaN"
| "float_div (Finite a) PosInf = Finite 0"
| "float_div (Finite a) NegInf = Finite 0"
| "float_div PosInf (Finite b) = (if 0 \<le> b then PosInf else NegInf)"
| "float_div NegInf (Finite b) = (if 0 \<le> b then NegInf else PosInf)"
| "float_div PosInf b = NaN"
| "float_div NegInf b = NaN"

text \<open>The comparisons \<^verbatim>\<open>a < b\<close> and \<^verbatim>\<open>a <= b\<close>: false whenever an operand is NaN.\<close>

fun float_less :: "pyfloat \<Rightarrow> pyfloat \<Rightarrow> bool" where
  "float_less (Finite a) (Finite b) = (a < b)"
| "float_less NaN b = False"
| "float_less a NaN = False"
| "float_less a NegInf = False"
| "float_less NegInf b = True"
| "float_less PosInf b = False"
| "float_less (Finite a) PosInf = True"

fun float_le :: "pyfloat \<Rightarrow> pyfloat \<Rightarrow> bool" where
  "float_le (Finite a) (Finite b) = (a \<le> b)"
| "float_le NaN b = False"
| "float_le a NaN = False"
| "float_le NegInf b = True"
| "float_le a PosInf = True"
| "float_le a NegInf = False"
| "float_le PosInf b = False"

text \<open>
  \<^verbatim>\<open>max(a, b)\<close> of two arguments keeps the first unless the second compares greater.
\<close>

definition py_max :: "pyfloat \<Rightarrow> pyfloat \<Rightarrow> pyfloat" where
  "py_max a b = (if float_less a b then b else a)"

text \<open>
  The exceptions the engine itself raises. The two \<^verbatim>\<open>ValueError\<close>s of the factory
  format a float into their message; the model keeps the number instead of its text.
\<close>

datatype error =
    ValueError string
  | ValueError_percentages_sum pyfloat
  | ValueError_percentage_range pyfloat
  | OverflowError string
  | AttributeError

text \<open>
  \<^verbatim>\<open>int(x)\<close> of a float truncates toward zero, and raises for an infinity and for NaN.
\<close>

definition py_int :: "real \<Rightarrow> int" where
  "py_int x = (if 0 \<le> x then \<lfloor>x\<rfloor> else \<lceil>x\<rceil>)"

fun int_of_float :: "pyfloat \<Rightarrow> error + int" where
  "int_of_float (Finite a) = Inr (py_int a)"
| "int_of_float PosInf = Inl (OverflowError ''cannot convert float infinity to integer'')"
| "int_of_float NegInf = Inl (OverflowError ''cannot convert float infinity to integer'')"
| "int_of_float NaN = Inl (ValueError ''cannot convert float NaN to integer'')"

text \<open>
  The conversion of an \<^verbatim>\<open>int\<close> operand of a float operation: correctly rounded, and an
  \<^verbatim>\<open>OverflowError\<close> for an integer beyond the range of binary64.
\<close>

definition float_of_int :: "int \<Rightarrow> error + pyfloat" where
  "float_of_int n =
     (case round64 (of_int n) of
        Finite a \<Rightarrow> Inr (Finite a)
      | PosInf \<Rightarrow> Inl (OverflowError ''int too large to convert to float'')
      | NegInf \<Rightarrow> Inl (OverflowError ''int too large to convert to float'')
      | NaN \<Rightarrow> Inl (OverflowError ''int too large to convert to float''))"

text \<open>
  The sum of a list of floats by rounded additions from the left, starting from zero:
  the built-in \<^verbatim>\<open>sum\<close> of CPython up to version 3.11. Later versions carry a compensation
  term, so the built-in is a parameter of the model (see the environment below) and this
  function is the instance the examples use.
\<close>

definition left_to_right_sum :: "pyfloat list \<Rightarrow> pyfloat" where
  "left_to_right_sum xs = foldl float_add (Finite 0) xs"

subsection \<open>The records\<close>

text \<open>\<^verbatim>\<open>models/diversity_models.py\<close>\<close>

record length_distribution_config =
  mean :: pyfloat
  sigma :: pyfloat
  shift :: pyfloat

record diversity_injection =
  response_length :: int
  tone_injection :: string
  disruptive_injection :: string
  language_injection :: string

text \<open>\<^verbatim>\<open>models/qa_models.py\<close> and \<^verbatim>\<open>models/qa_verification_models.py\<close>\<close>

record qa =
  question :: string
  ground_truth_answer :: string
  chunk_ids :: "string list"

record qa_tagged =
  question :: string
  ground_truth_answer :: string
  tags :: "string \<rightharpoonup> string"
  diversity_injection :: diversity_injection
  chunk_ids :: "string list"
  chunk_content :: "string list"

record qa_verification_result =
  is_correct :: bool
  reason :: string

text \<open>
  Modelled from the spec: the layout of a search record. The source reads a record only
  through the static accessors of \<^verbatim>\<open>SearchService\<close>, whose bodies are not part of
  the sources; the spec's Fragment has a unique id, an owning-document id, an ordinal
  position, a title and a textual content, and the accessors return the field, a
  \<^verbatim>\<open>str\<close> that is empty when the field is missing.
\<close>

record search_record =
  record_id :: string
  document_id :: string
  part_number :: int
  title :: string
  content :: string

text \<open>
  Modelled from the spec: the bodies of the accessors \<^verbatim>\<open>get_search_record_title\<close>,
  \<^verbatim>\<open>get_search_record_id\<close> and \<^verbatim>\<open>get_search_record_content\<close>, which the sources
  only declare. Each returns its field of the record.
\<close>

definition get_search_record_title :: "search_record \<Rightarrow> string" where
  "get_search_record_title search_record = title search_record"

definition get_search_record_id :: "search_record \<Rightarrow> string" where
  "get_search_record_id search_record = record_id search_record"

definition get_search_record_content :: "search_record \<Rightarrow> string" where
  "get_search_record_content search_record = content search_record"

section \<open>The context builder\<close>

text \<open>\<^verbatim>\<open>sep.join(parts)\<close>\<close>

fun join :: "string \<Rightarrow> string list \<Rightarrow> string" where
  "join sep [] = []"
| "join sep [x] = x"
| "join sep (x # y # ys) = x @ sep @ join sep (y # ys)"

text \<open>
  The loop of \<^verbatim>\<open>BaseGenerator._build_context\<close> over the search results, with its three
  local variables \<^verbatim>\<open>context_parts\<close>, \<^verbatim>\<open>previous_title\<close> (initially \<^verbatim>\<open>None\<close>) and
  \<^verbatim>\<open>has_results\<close>.
\<close>

fun build_context_loop ::
  "search_record list \<Rightarrow> string list \<Rightarrow> string option \<Rightarrow> bool
    \<Rightarrow> string list \<times> string option \<times> bool" where
  "build_context_loop [] context_parts previous_title has_results =
     (context_parts, previous_title, has_results)"
| "build_context_loop (result # rest) context_parts previous_title has_results =
     (let current_title = get_search_record_title result;
          titled =
            (if Some current_title \<noteq> previous_title
             then (if current_title \<noteq> []
                   then context_parts @ [''Document Title: '' @ current_title]
                   else context_parts,
                   Some current_title)
             else (context_parts, previous_title));
          chunk_id = get_search_record_id result;
          content = get_search_record_content result
      in build_context_loop rest
           (fst titled @ [''CHUNK_ID: '' @ chunk_id @ ''\<newline>Content: '' @ content])
           (snd titled) True)"

definition build_context :: "search_record list \<Rightarrow> error + string" where
  "build_context search_results =
     (case build_context_loop search_results [] None False of
        (context_parts, previous_title, has_results) \<Rightarrow>
          if \<not> has_results
          then Inl (ValueError ''No search results found. Cannot build context.'')
          else Inr (join ''\<newline>\<newline>'' context_parts))"

text \<open>
  The parts a fragment contributes, given the title of the fragment immediately before it
  (\<open>None\<close> for the first fragment), and the predecessor titles of a sequence.
\<close>

definition title_header :: "search_record \<Rightarrow> string" where
  "title_header r = ''Document Title: '' @ title r"

definition chunk_block :: "search_record \<Rightarrow> string" where
  "chunk_block r = ''CHUNK_ID: '' @ record_id r @ ''\<newline>Content: '' @ content r"

definition preceding_titles :: "search_record list \<Rightarrow> string option list" where
  "preceding_titles rs = None # map (\<lambda>r. Some (title r)) rs"

definition parts_after :: "string option \<times> search_record \<Rightarrow> string list" where
  "parts_after pr =
     (case pr of (previous, r) \<Rightarrow>
        (if Some (title r) \<noteq> previous \<and> title r \<noteq> [] then [title_header r] else [])
        @ [chunk_block r])"

section \<open>The opaque capabilities\<close>

text \<open>
  The search backend, the language model, the random source and the clock are outside
  the engine: \<^verbatim>\<open>SearchService\<close> is a class of stubs in the sources and the others are
  library calls. They are a parameter of the model, and so is the built-in \<^verbatim>\<open>sum\<close> of
  a non-empty list of floats, whose algorithm depends on the version of the interpreter.
  An \<open>environment\<close> fixes what each capability answers, as a function of the number of
  capability calls made before it and of the call's arguments, so that two calls with
  equal arguments may answer differently.
  The \<open>world\<close> is the list of the capability calls made so far, the latest first: it is
  the only state the engine shares with its capabilities. Capability calls are taken to
  return: an exception raised inside a capability is not modelled.
\<close>

datatype call =
    Get_random_chunk
  | Get_all_chunks_of_document
  | Get_search_records_by_ids
  | Random_lognormal
  | Random_choice
  | Chat_parse_qa
  | Chat_parse_verification
  | Save_json

type_synonym world = "call list"

text \<open>
  The part of a chat completion the engine reads: the names of the tool calls of the first
  choice's message, and its parsed \<^verbatim>\<open>QA\<close> (\<^verbatim>\<open>None\<close> when the model gave none).
\<close>

record completion =
  tool_calls :: "string list"
  parsed :: "qa option"

record environment =
  random_chunk_at :: "nat \<Rightarrow> search_record"
  all_chunks_of_document_at :: "nat \<Rightarrow> search_record \<Rightarrow> search_record list"
  sorted_by_part_number :: "search_record list \<Rightarrow> search_record list"
  search_records_by_ids_at :: "nat \<Rightarrow> string list \<Rightarrow> search_record list"
  lognormal_at :: "nat \<Rightarrow> pyfloat \<Rightarrow> pyfloat \<Rightarrow> pyfloat"
  choice_at :: "nat \<Rightarrow> string list \<Rightarrow> pyfloat list \<Rightarrow> string"
  parse_qa_at :: "nat \<Rightarrow> string \<Rightarrow> completion"
  parse_verification_at :: "nat \<Rightarrow> string \<Rightarrow> qa_verification_result"
  timestamp_at :: "nat \<Rightarrow> string"
  builtin_sum :: "pyfloat list \<Rightarrow> pyfloat"

definition get_random_chunk :: "environment \<Rightarrow> world \<Rightarrow> search_record \<times> world" where
  "get_random_chunk env w = (random_chunk_at env (length w), Get_random_chunk # w)"

definition get_all_chunks_of_document ::
  "environment \<Rightarrow> search_record \<Rightarrow> world \<Rightarrow> search_record list \<times> world" where
  "get_all_chunks_of_document env chunk_search_record w =
     (all_chunks_of_document_at env (length w) chunk_search_record,
      Get_all_chunks_of_document # w)"

definition sort_chunks_by_part_number ::
  "environment \<Rightarrow> search_record list \<Rightarrow> search_record list" where
  "sort_chunks_by_part_number env search_records = sorted_by_part_number env search_records"

definition get_search_records_by_ids ::
  "environment \<Rightarrow> string list \<Rightarrow> world \<Rightarrow> search_record list \<times> world" where
  "get_search_records_by_ids env search_record_ids w =
     (search_records_by_ids_at env (length w) search_record_ids,
      Get_search_records_by_ids # w)"

text \<open>\<^verbatim>\<open>np.random.lognormal(mean=mean, sigma=sigma)\<close>\<close>

definition random_lognormal ::
  "environment \<Rightarrow> pyfloat \<Rightarrow> pyfloat \<Rightarrow> world \<Rightarrow> pyfloat \<times> world" where
  "random_lognormal env m s w = (lognormal_at env (length w) m s, Random_lognormal # w)"

text \<open>\<^verbatim>\<open>np.random.choice(names, p=p)\<close>\<close>

definition random_choice ::
  "environment \<Rightarrow> string list \<Rightarrow> pyfloat list \<Rightarrow> world \<Rightarrow> string \<times> world" where
  "random_choice env names p w = (choice_at env (length w) names p, Random_choice # w)"

text \<open>
  \<^verbatim>\<open>llm_client.beta.chat.completions.parse\<close> with \<^verbatim>\<open>response_format=QA\<close> and the
  retry tool, and with \<^verbatim>\<open>response_format=QAVerificationResult\<close>.
\<close>

definition chat_parse_qa :: "environment \<Rightarrow> string \<Rightarrow> world \<Rightarrow> completion \<times> world" where
  "chat_parse_qa env system_prompt w =
     (parse_qa_at env (length w) system_prompt, Chat_parse_qa # w)"

definition chat_parse_verification ::
  "environment \<Rightarrow> string \<Rightarrow> world \<Rightarrow> qa_verification_result \<times> world" where
  "chat_parse_verification env system_prompt w =
     (parse_verification_at env (length w) system_prompt, Chat_parse_verification # w)"

section \<open>The diversity generator\<close>

text \<open>
  \<^verbatim>\<open>DiversityGenerator._get_response_length\<close>: the draw and the shift are added as
  floats, the sum is clamped from below by the shift, and \<^verbatim>\<open>int\<close> converts the result,
  raising for an infinity and for NaN.
\<close>

definition get_response_length ::
  "length_distribution_config \<Rightarrow> environment \<Rightarrow> world \<Rightarrow> (error + int) \<times> world" where
  "get_response_length config env w =
     (let mean = mean config;
          sigma = sigma config;
          shift = shift config
      in case random_lognormal env mean sigma w of
           (draw, w1) \<Rightarrow>
             (let length = float_add draw shift
              in (int_of_float (py_max shift length), w1)))"

text \<open>
  The three weighted categorical draws: the names and the frequencies are split and the
  frequencies are divided by their sum, in NumPy's float arithmetic (\<^verbatim>\<open>np.sum\<close> adds
  an array of fewer than eight elements from the left; the integer frequencies of the
  languages are converted exactly).
\<close>

definition weighted_choice ::
  "environment \<Rightarrow> (string \<times> pyfloat) list \<Rightarrow> world \<Rightarrow> string \<times> world" where
  "weighted_choice env table w =
     (let names = map fst table;
          frequencies = map snd table
      in random_choice env names
           (map (\<lambda>f. float_div f (left_to_right_sum frequencies)) frequencies) w)"

definition get_tone_injection :: "environment \<Rightarrow> world \<Rightarrow> string \<times> world" where
  "get_tone_injection env w =
     weighted_choice env
       [([], Finite 5), (''formal'', Finite 1), (''informal'', Finite (3 / 2)),
        (''conversational'', Finite 2)] w"

definition get_disruptive_injection :: "environment \<Rightarrow> world \<Rightarrow> string \<times> world" where
  "get_disruptive_injection env w =
     weighted_choice env
       [([], Finite 5),
        (''Include a few spelling errors in the question you generate.'', Finite (3 / 2)),
        (''Introduce a slight ambiguity in the question you generate.'', Finite 1)] w"

definition get_language_injection :: "environment \<Rightarrow> world \<Rightarrow> string \<times> world" where
  "get_language_injection env w =
     weighted_choice env [(''English'', Finite 10), (''Swedish'', Finite 1)] w"

text \<open>
  \<^verbatim>\<open>DiversityGenerator.get_diversity_injection\<close>: the four draws, in argument order;
  an exception of the first ends the call before the others are made.
\<close>

definition get_diversity_injection ::
  "length_distribution_config \<Rightarrow> environment \<Rightarrow> world
    \<Rightarrow> (error + diversity_injection) \<times> world" where
  "get_diversity_injection config env w =
     (case get_response_length config env w of
        (Inl e, w1) \<Rightarrow> (Inl e, w1)
      | (Inr len, w1) \<Rightarrow>
         (case get_tone_injection env w1 of (tone, w2) \<Rightarrow>
          case get_disruptive_injection env w2 of (disruptive, w3) \<Rightarrow>
          case get_language_injection env w3 of (language, w4) \<Rightarrow>
            (Inr \<lparr>response_length = len, tone_injection = tone,
                  disruptive_injection = disruptive, language_injection = language\<rparr>, w4)))"

text \<open>\<^verbatim>\<open>str(n)\<close> of an integer, for the f-string of \<^verbatim>\<open>get_injection_as_string\<close>.\<close>

fun str_nat :: "nat \<Rightarrow> string" where
  "str_nat n =
     (if n < 10 then [char_of (48 + n)]
      else str_nat (n div 10) @ [char_of (48 + n mod 10)])"

definition str_int :: "int \<Rightarrow> string" where
  "str_int i = (if i < 0 then ''-'' @ str_nat (nat (- i)) else str_nat (nat i))"

definition get_injection_as_string :: "diversity_injection \<Rightarrow> string" where
  "get_injection_as_string injection =
     ''Response Length: '' @ str_int (response_length injection) @ ''\<newline>''
     @ ''Tone Injection: '' @ tone_injection injection @ ''\<newline>''
     @ ''Disruptive Injection: '' @ disruptive_injection injection @ ''\<newline>''
     @ ''Language Injection: '' @ language_injection injection @ ''\<newline>''"

declare str_nat.simps [simp del]

section \<open>The generators\<close>

text \<open>
  The two concrete classes of \<^verbatim>\<open>generators/single_document_grounding\<close>. A generator
  object holds its class, the configuration of its diversity generator and the retry
  counter that \<^verbatim>\<open>BaseGenerator.__init__\<close> sets to 0; its clients are the environment.
\<close>

datatype generator_class = SingleHopOneDocGenerator | MultiHopOneDocGenerator

record generator =
  generator_class :: generator_class
  diversity_config :: length_distribution_config
  retry_count :: nat

definition MAX_RETRIES :: nat where
  "MAX_RETRIES = 10"

definition new_generator :: "generator_class \<Rightarrow> length_distribution_config \<Rightarrow> generator" where
  "new_generator cls config =
     \<lparr>generator_class = cls, diversity_config = config, retry_count = 0\<rparr>"

text \<open>The module constant \<^verbatim>\<open>generator_prompt\<close> of \<^verbatim>\<open>single_hop_one_doc.py\<close>.\<close>

definition single_hop_generator_prompt :: string where
  \<open>single_hop_generator_prompt =
     ''   \<newline>''
     @ ''You are a Q&A''
     @ [CHR 0xE2, CHR 0x80, CHR 0x90]
     @ ''generation assistant. You receive a single document divided into chunks (thousands of other documents exist but are not visible). \<newline>''
     @ ''Your task: generate exactly one question and its answer, drawn from a single chunk you''
     @ [CHR 0xE2, CHR 0x80, CHR 0x99]
     @ ''ve been given. \<newline>''
     @ ''Follow these rules:\<newline>''
     @ ''\<newline>''
     @ ''# Single-chunk sourcing\<newline>''
     @ ''\<newline>''
     @ ''- The answer must appear in exactly one provided chunk.\<newline>''
     @ ''\<newline>''
     @ ''# Chunk-specific wording\<newline>''
     @ ''\<newline>''
     @ ''-  Don''
     @ [CHR 0xE2, CHR 0x80, CHR 0x99]
     @ ''t assume the reader knows which chunk you used.\<newline>''
     @ ''\<newline>''
     @ ''- If the question refers to details unique to this document (e.g. a particular agreement or project), name it explicitly in the question.\<newline>''
     @ ''\<newline>''
     @ ''- Avoid ''
     @ [CHR 0xE2, CHR 0x80, CHR 0x9C]
     @ ''according to this document,''
     @ [CHR 0xE2, CHR 0x80, CHR 0x9D]
     @ '' ''
     @ [CHR 0xE2, CHR 0x80, CHR 0x9C]
     @ ''in this contract,''
     @ [CHR 0xE2, CHR 0x80, CHR 0x9D]
     @ '' etc. instead embed the title or identifier:\<newline>''
     @ ''\<newline>''
     @ ''    ''
     @ [CHR 0xE2, CHR 0x9C, CHR 0x94]
     @ '' Good: ''
     @ [CHR 0xE2, CHR 0x80, CHR 0x9C]
     @ ''What is the minimum penalty fee for breach of contract when doing a joint venture?''
     @ [CHR 0xE2, CHR 0x80, CHR 0x9D]
     @ ''\<newline>''
     @ ''\<newline>''
     @ ''    ''
     @ [CHR 0xE2, CHR 0x9C, CHR 0x94]
     @ '' Good: ''
     @ [CHR 0xE2, CHR 0x80, CHR 0x9C]
     @ ''Who is responsible for assembling and submitting the Engineering Turnover Packages (ETOP) for each trade in the Schering-Plough Cafeteria Project?''
     @ [CHR 0xE2, CHR 0x80, CHR 0x9D]
     @ ''\<newline>''
     @ ''\<newline>''
     @ ''    ''
     @ [CHR 0xE2, CHR 0x9C, CHR 0x98]
     @ '' Bad: ''
     @ [CHR 0xE2, CHR 0x80, CHR 0x9C]
     @ ''What is the penalty fee for breach of contract in this document?''
     @ [CHR 0xE2, CHR 0x80, CHR 0x9D]
     @ ''\<newline>''
     @ ''\<newline>''
     @ ''# Corpus-wide uniqueness\<newline>''
     @ ''\<newline>''
     @ ''- Avoid using sections or clauses when referencing the document.\<newline>''
     @ ''\<newline>''
     @ ''- Avoid using the title of the document word for word in you question.\<newline>''
     @ ''\<newline>''
     @ ''# Clarity & self-containment\<newline>''
     @ ''\<newline>''
     @ ''- A reader seeing only the question must know exactly where to look.\<newline>''
     @ ''\<newline>''
     @ ''- The reader does not know which document the question is based on\<newline>''
     @ ''\<newline>''
     @ ''Don''
     @ [CHR 0xE2, CHR 0x80, CHR 0x99]
     @ ''t use pronouns or references like ''
     @ [CHR 0xE2, CHR 0x80, CHR 0x9C]
     @ ''it''
     @ [CHR 0xE2, CHR 0x80, CHR 0x9D]
     @ '' or ''
     @ [CHR 0xE2, CHR 0x80, CHR 0x9C]
     @ ''that clause''
     @ [CHR 0xE2, CHR 0x80, CHR 0x9D]
     @ '' without explicitly naming the clause, section, or title.\<newline>''\<close>

text \<open>The module constant \<^verbatim>\<open>generator_prompt\<close> of \<^verbatim>\<open>multi_hope_one_doc.py\<close>.\<close>

definition multi_hop_generator_prompt :: string where
  \<open>multi_hop_generator_prompt =
     ''\<newline>''
     @ ''You are a Q&A''
     @ [CHR 0xE2, CHR 0x80, CHR 0x90]
     @ ''generation assistant. You receive a single document divided into chunks (thousands of other documents exist but are not visible). \<newline>''
     @ ''Your task: generate exactly one question and its answer, drawn from a single chunk you''
     @ [CHR 0xE2, CHR 0x80, CHR 0x99]
     @ ''ve been given. \<newline>''
     @ ''Follow these rules:\<newline>''
     @ ''\<newline>''
     @ ''# Dual-Chunk Sourcing Task\<newline>''
     @ ''**Objective:** Craft a question that requires synthesizing information from exactly two distinct chunks of the provided document.\<newline>''
     @ ''\<newline>''
     @ ''**Guidelines:**\<newline>''
     @ ''\<newline>''
     @ ''- The question must necessitate the combination of both chunks for a complete and accurate answer.\<newline>''
     @ ''\<newline>''
     @ ''- It should be impossible to answer the question correctly using only one chunk in isolation.\<newline>''
     @ ''\<newline>''
     @ ''- Avoid surface-level or fact-recall questions that could be answered by a single chunk.\<newline>''
     @ ''\<newline>''
     @ ''- Design the question to draw connections, highlight contrasts, or require reasoning across the two chunks.\<newline>''
     @ ''\<newline>''
     @ ''**Common feedback from reviewers (Avoid these pitfalls):**\<newline>''
     @ ''- The answer to any question about backcharges for deficient work can be answered from either chunk, as both contain this backcharge provision verbatim.\<newline>''
     @ ''\<newline>''
     @ ''\<newline>''
     @ ''# Don''
     @ [CHR 0xE2, CHR 0x80, CHR 0x99]
     @ ''t assume the reader knows which chunk you used.\<newline>''
     @ ''\<newline>''
     @ ''- If the question refers to details unique to this document (e.g. a particular agreement or project), name it explicitly in the question.\<newline>''
     @ ''\<newline>''
     @ ''- Avoid ''
     @ [CHR 0xE2, CHR 0x80, CHR 0x9C]
     @ ''according to this document,''
     @ [CHR 0xE2, CHR 0x80, CHR 0x9D]
     @ '' ''
     @ [CHR 0xE2, CHR 0x80, CHR 0x9C]
     @ ''in this contract,''
     @ [CHR 0xE2, CHR 0x80, CHR 0x9D]
     @ '' etc. instead embed the title or identifier:\<newline>''
     @ ''\<newline>''
     @ ''    ''
     @ [CHR 0xE2, CHR 0x9C, CHR 0x94]
     @ '' Good: ''
     @ [CHR 0xE2, CHR 0x80, CHR 0x9C]
     @ ''What is the minimum penalty fee for breach of contract when doing a joint venture?''
     @ [CHR 0xE2, CHR 0x80, CHR 0x9D]
     @ ''\<newline>''
     @ ''\<newline>''
     @ ''    ''
     @ [CHR 0xE2, CHR 0x9C, CHR 0x94]
     @ '' Good: ''
     @ [CHR 0xE2, CHR 0x80, CHR 0x9C]
     @ ''Who is responsible for assembling and submitting the Engineering Turnover Packages (ETOP) for each trade in the Schering-Plough Cafeteria Project?''
     @ [CHR 0xE2, CHR 0x80, CHR 0x9D]
     @ ''\<newline>''
     @ ''\<newline>''
     @ ''    ''
     @ [CHR 0xE2, CHR 0x9C, CHR 0x98]
     @ '' Bad: ''
     @ [CHR 0xE2, CHR 0x80, CHR 0x9C]
     @ ''What is the penalty fee for breach of contract in this document?''
     @ [CHR 0xE2, CHR 0x80, CHR 0x9D]
     @ ''\<newline>''
     @ ''\<newline>''
     @ ''# Corpus-wide uniqueness\<newline>''
     @ ''\<newline>''
     @ ''- Avoid using sections or clauses when referencing the document.\<newline>''
     @ ''\<newline>''
     @ ''- Avoid using the title of the document word for word in you question.\<newline>''
     @ ''\<newline>''
     @ ''# Clarity & self-containment\<newline>''
     @ ''\<newline>''
     @ ''- A reader seeing only the question must know exactly where to look.\<newline>''
     @ ''\<newline>''
     @ ''- The reader does not know which document the question is based on\<newline>''
     @ ''\<newline>''
     @ ''Don''
     @ [CHR 0xE2, CHR 0x80, CHR 0x99]
     @ ''t use pronouns or references like ''
     @ [CHR 0xE2, CHR 0x80, CHR 0x9C]
     @ ''it''
     @ [CHR 0xE2, CHR 0x80, CHR 0x9D]
     @ '' or ''
     @ [CHR 0xE2, CHR 0x80, CHR 0x9C]
     @ ''that clause''
     @ [CHR 0xE2, CHR 0x80, CHR 0x9D]
     @ '' without explicitly naming the clause, section, or title.\<newline>''\<close>

definition chunk_connection_prompt :: "qa \<Rightarrow> string \<Rightarrow> string" where
  \<open>chunk_connection_prompt qa context =
     ''\<newline>''
     @ ''        You are a helpful assistant. Your task is to verify that a comprehensive answer to a question exists in the context provided.\<newline>''
     @ ''        \<newline>''
     @ ''        If the answer to the question can be found in the context answer True otherwise return False.\<newline>''
     @ ''        Provide a reason for your answer. The reason should be less then 30 words.\<newline>''
     @ ''\<newline>''
     @ ''        Question: ''
     @ qa.question qa
     @ ''\<newline>''
     @ ''\<newline>''
     @ ''        # Context:\<newline>''
     @ ''        ''
     @ context
     @ ''\<newline>''
     @ ''        ''\<close>

definition requires_multi_hop_prompt :: "qa \<Rightarrow> string \<Rightarrow> string" where
  \<open>requires_multi_hop_prompt qa context =
     ''\<newline>''
     @ ''        Your role as a helpful assistant is to verify that answering the question requires drawing on information from BOTH chunks in the provided context.\<newline>''
     @ ''        If the answer to the question REQUIRES information from BOTH chunks, return True, \<newline>''
     @ ''        If the answer to the question can be answered by ONE of the chunks alone, return False.\<newline>''
     @ ''\<newline>''
     @ ''        is_correct: True if the question can only be answered by combining information from the two chunks, otherwise False.\<newline>''
     @ ''\<newline>''
     @ ''        Provide a reason for your answer. The reason should be less then 30 words.\<newline>''
     @ ''\<newline>''
     @ ''        # Question:\<newline>''
     @ ''        ''
     @ qa.question qa
     @ ''\<newline>''
     @ ''\<newline>''
     @ ''        # Context:\<newline>''
     @ ''        ''
     @ context
     @ ''\<newline>''
     @ ''\<newline>''
     @ ''        ''\<close>

fun get_base_prompt_generator :: "generator_class \<Rightarrow> string" where
  "get_base_prompt_generator SingleHopOneDocGenerator = single_hop_generator_prompt"
| "get_base_prompt_generator MultiHopOneDocGenerator = multi_hop_generator_prompt"

fun get_tags :: "generator_class \<Rightarrow> (string \<rightharpoonup> string)" where
  "get_tags SingleHopOneDocGenerator = [''question_type'' \<mapsto> ''single_hop_same_doc'']"
| "get_tags MultiHopOneDocGenerator = [''question_type'' \<mapsto> ''multi_hop_same_doc'']"

text \<open>\<^verbatim>\<open>BaseSingleDocumentQAGenerator._build_system_prompt\<close>\<close>

definition build_system_prompt ::
  "generator_class \<Rightarrow> string \<Rightarrow> diversity_injection \<Rightarrow> string" where
  "build_system_prompt cls context injection =
     (let base_prompt = get_base_prompt_generator cls;
          formatted_diversity = get_injection_as_string injection
      in base_prompt
         @ ''\<newline>\<newline># Additional guidelines for the question generation:\<newline>''
         @ ''Note this instructions does not apply when generating the answer.\<newline>''
         @ formatted_diversity
         @ ''\<newline>\<newline># Context:\<newline>''
         @ context)"

subsection \<open>Verification\<close>

text \<open>
  \<^verbatim>\<open>BaseGenerator._verify_qa_chunk_connection\<close>, the grounding predicate: the claimed
  chunks are fetched, a context is built from them and the model judges it.
\<close>

definition verify_qa_chunk_connection ::
  "environment \<Rightarrow> qa \<Rightarrow> world \<Rightarrow> qa_verification_result \<times> world" where
  "verify_qa_chunk_connection env qa w =
     (case get_search_records_by_ids env (qa.chunk_ids qa) w of
        (results, w1) \<Rightarrow>
          if results = []
          then (\<lparr>is_correct = False,
                 reason = ''No chunks found for the given chunk IDs''\<rparr>, w1)
          else (case build_context results of
                  Inl e \<Rightarrow> (\<lparr>is_correct = False, reason = ''Error building context''\<rparr>, w1)
                | Inr context \<Rightarrow>
                    chat_parse_verification env (chunk_connection_prompt qa context) w1))"

text \<open>\<^verbatim>\<open>MultiHopOneDocGenerator._verify_qa_question_requires_multi_hop\<close>\<close>

definition verify_qa_question_requires_multi_hop ::
  "environment \<Rightarrow> qa \<Rightarrow> world \<Rightarrow> qa_verification_result \<times> world" where
  "verify_qa_question_requires_multi_hop env qa w =
     (case get_search_records_by_ids env (qa.chunk_ids qa) w of
        (results, w1) \<Rightarrow>
          (case build_context results of
             Inl e \<Rightarrow> (\<lparr>is_correct = False, reason = ''Error building context''\<rparr>, w1)
           | Inr context \<Rightarrow>
               chat_parse_verification env (requires_multi_hop_prompt qa context) w1))"

text \<open>
  \<^verbatim>\<open>SingleHopOneDocGenerator._verify_qa\<close> and \<^verbatim>\<open>MultiHopOneDocGenerator._verify_qa\<close>.
  The answer-uniqueness check is a string literal in both methods, hence not run.
\<close>

definition single_hop_verify_qa ::
  "environment \<Rightarrow> qa \<Rightarrow> world \<Rightarrow> qa_verification_result \<times> world" where
  "single_hop_verify_qa env qa w =
     (case verify_qa_chunk_connection env qa w of
        (answer_has_chunk_connection, w1) \<Rightarrow>
          if \<not> is_correct answer_has_chunk_connection
          then (\<lparr>is_correct = False,
                 reason = ''Answer '' @ [CHR 0x27] @ qa.ground_truth_answer qa @ [CHR 0x27]
                   @ '' not found in specified chunks. Detailed reason: ''
                   @ reason answer_has_chunk_connection\<rparr>, w1)
          else (\<lparr>is_correct = True, reason = ''All validation checks passed.''\<rparr>, w1))"

definition multi_hop_verify_qa ::
  "environment \<Rightarrow> qa \<Rightarrow> world \<Rightarrow> qa_verification_result \<times> world" where
  "multi_hop_verify_qa env qa w =
     (case verify_qa_chunk_connection env qa w of
        (answer_has_chunk_connection, w1) \<Rightarrow>
          if \<not> is_correct answer_has_chunk_connection
          then (\<lparr>is_correct = False,
                 reason = ''Answer '' @ [CHR 0x27] @ qa.ground_truth_answer qa @ [CHR 0x27]
                   @ '' not found in specified chunks. Detailed reason: ''
                   @ reason answer_has_chunk_connection\<rparr>, w1)
          else (case verify_qa_question_requires_multi_hop env qa w1 of
                  (question_requires_multi_hop, w2) \<Rightarrow>
                    if \<not> is_correct question_requires_multi_hop
                    then (\<lparr>is_correct = False,
                           reason = ''Question '' @ [CHR 0x27] @ qa.question qa @ [CHR 0x27]
                             @ '' does not require multi-hop reasoning. Detailed reason: ''
                             @ reason question_requires_multi_hop\<rparr>, w2)
                    else (\<lparr>is_correct = True,
                           reason = ''All validation checks passed.''\<rparr>, w2)))"

fun verify_qa ::
  "generator_class \<Rightarrow> environment \<Rightarrow> qa \<Rightarrow> world \<Rightarrow> qa_verification_result \<times> world" where
  "verify_qa SingleHopOneDocGenerator env qa w = single_hop_verify_qa env qa w"
| "verify_qa MultiHopOneDocGenerator env qa w = multi_hop_verify_qa env qa w"

subsection \<open>Generation and retry\<close>

text \<open>\<^verbatim>\<open>BaseSingleDocumentQAGenerator._get_chunk_content_by_ids\<close>\<close>

definition get_chunk_content_by_ids ::
  "environment \<Rightarrow> string list \<Rightarrow> world \<Rightarrow> string list \<times> world" where
  "get_chunk_content_by_ids env ids w =
     (case get_search_records_by_ids env ids w of
        (chunks, w1) \<Rightarrow> (map get_search_record_content chunks, w1))"

text \<open>
  What a call of the engine ends with: a returned value, \<^verbatim>\<open>sys.exit(code)\<close>, which no
  handler of the engine catches (they catch \<^verbatim>\<open>Exception\<close>), or an uncaught exception.
\<close>

datatype 'a outcome = Returned 'a | SystemExit int | Raised error

text \<open>
  \<^verbatim>\<open>BaseSingleDocumentQAGenerator.generate\<close> and \<^verbatim>\<open>BaseGenerator._retry_logic\<close>, which
  call each other. The generator object \<open>self\<close> is passed and returned, since
  \<^verbatim>\<open>_retry_logic\<close> updates its retry counter. An exception of the diversity generator
  is not caught, and reading \<^verbatim>\<open>qa.question\<close> of a completion that was not parsed raises
  \<^verbatim>\<open>AttributeError\<close>. The console output is not modelled.
\<close>

function generate ::
    "environment \<Rightarrow> generator \<Rightarrow> world \<Rightarrow> qa_tagged outcome \<times> generator \<times> world"
  and retry_logic ::
    "environment \<Rightarrow> generator \<Rightarrow> world \<Rightarrow> qa_tagged outcome \<times> generator \<times> world"
where
  "generate env self w =
     (case get_random_chunk env w of (random_chunk, w1) \<Rightarrow>
      case get_all_chunks_of_document env random_chunk w1 of (all_chunks_for_document, w2) \<Rightarrow>
      case build_context (sort_chunks_by_part_number env all_chunks_for_document) of
        Inl e \<Rightarrow> retry_logic env self w2
      | Inr context \<Rightarrow>
         (case get_diversity_injection (diversity_config self) env w2 of
            (Inl e, w3) \<Rightarrow> (Raised e, self, w3)
          | (Inr injection, w3) \<Rightarrow>
          case chat_parse_qa env
                 (build_system_prompt (generator_class self) context injection) w3 of
            (qa_completion, w4) \<Rightarrow>
              if tool_calls qa_completion \<noteq> []
                 \<and> hd (tool_calls qa_completion) = ''_retry_logic''
              then retry_logic env self w4
              else (case parsed qa_completion of
                      None \<Rightarrow> (Raised AttributeError, self, w4)
                    | Some qa \<Rightarrow>
                       (case verify_qa (generator_class self) env qa w4 of
                          (verify_qa_result, w5) \<Rightarrow>
                            if \<not> is_correct verify_qa_result
                            then retry_logic env self w5
                            else (case get_chunk_content_by_ids env (qa.chunk_ids qa) w5 of
                                    (contents, w6) \<Rightarrow>
                                      (Returned
                                         \<lparr>qa_tagged.question = qa.question qa,
                                          ground_truth_answer = qa.ground_truth_answer qa,
                                          tags = get_tags (generator_class self),
                                          diversity_injection = injection,
                                          chunk_ids = qa.chunk_ids qa,
                                          chunk_content = contents\<rparr>,
                                       self, w6))))))"
| "retry_logic env self w =
     (if retry_count self < MAX_RETRIES
      then generate env (self\<lparr>retry_count := retry_count self + 1\<rparr>) w
      else (SystemExit 1, self, w))"
  by pat_completeness auto
termination
  by (relation "measure (\<lambda>x. case x of
         Inl (env, self, w) \<Rightarrow> 2 * (MAX_RETRIES - retry_count self) + 2
       | Inr (env, self, w) \<Rightarrow> 2 * (MAX_RETRIES - retry_count self) + 1)")
     (auto simp: MAX_RETRIES_def)

declare generate.simps [simp del]
declare retry_logic.simps [simp del]

section \<open>The batch allocator\<close>

text \<open>
  \<^verbatim>\<open>QAFactory\<close> of \<^verbatim>\<open>qa_factory/qa_factory.py\<close>. The constructor receives the list of
  pairs of a generator object and its percentage; each entry of the list is taken to be
  an object of its own, as in \<^verbatim>\<open>main.py\<close>.
\<close>

record qa_factory =
  generators :: "(generator \<times> pyfloat) list"
  output_folder :: string

text \<open>
  \<^verbatim>\<open>sum(percentage for _, percentage in generators)\<close>: the integer 0 for no generator,
  else what the built-in makes of the floats.
\<close>

definition py_sum :: "environment \<Rightarrow> pyfloat list \<Rightarrow> pyfloat" where
  "py_sum env xs = (if xs = [] then Finite 0 else builtin_sum env xs)"

text \<open>
  \<^verbatim>\<open>QAFactory.__init__\<close>. The literals \<^verbatim>\<open>1.0\<close> and \<^verbatim>\<open>0.0\<close> are exact and the
  literal \<^verbatim>\<open>0.01\<close> is the binary64 number nearest to one hundredth.
\<close>

definition QAFactory_init ::
  "environment \<Rightarrow> (generator \<times> pyfloat) list \<Rightarrow> string \<Rightarrow> error + qa_factory" where
  "QAFactory_init env gens folder =
     (let total_percentage = py_sum env (map snd gens)
      in if float_less (round64 (1 / 100))
              (float_abs (float_sub total_percentage (Finite 1)))
         then Inl (ValueError_percentages_sum total_percentage)
         else (case find (\<lambda>(generator, percentage).
                       \<not> (float_le (Finite 0) percentage \<and> float_le percentage (Finite 1)))
                     gens of
                 Some (generator, percentage) \<Rightarrow> Inl (ValueError_percentage_range percentage)
               | None \<Rightarrow> Inr \<lparr>generators = gens, output_folder = folder\<rparr>))"

text \<open>
  \<^verbatim>\<open>save_qa_to_json\<close>: the file name carries the time stamp of the clock, the path is
  \<^verbatim>\<open>os.path.join(output_folder, filename)\<close> on a POSIX system, and the write is one
  capability call.
\<close>

definition path_join :: "string \<Rightarrow> string \<Rightarrow> string" where
  "path_join folder filename =
     (if folder = [] \<or> last folder = CHR ''/'' then folder @ filename
      else folder @ ''/'' @ filename)"

definition save_qa_to_json ::
  "environment \<Rightarrow> qa_factory \<Rightarrow> qa_tagged list \<Rightarrow> world \<Rightarrow> string \<times> world" where
  "save_qa_to_json env self qa_samples w =
     (let timestamp = timestamp_at env (length w);
          filename = ''qa_generated_'' @ timestamp @ ''.json''
      in (path_join (output_folder self) filename, Save_json # w))"

text \<open>
  The inner loop of \<^verbatim>\<open>QAFactory.generate\<close>: \<^verbatim>\<open>range(num_samples_for_generator)\<close> calls
  of the generator, each sample appended to \<^verbatim>\<open>samples\<close>. An exit or an exception ends
  the loop and everything around it.
\<close>

fun generate_samples ::
  "environment \<Rightarrow> generator \<Rightarrow> nat \<Rightarrow> qa_tagged list \<Rightarrow> world
    \<Rightarrow> qa_tagged list outcome \<times> generator \<times> world" where
  "generate_samples env generator 0 samples w = (Returned samples, generator, w)"
| "generate_samples env generator (Suc k) samples w =
     (case generate env generator w of
        (Returned sample, generator1, w1) \<Rightarrow>
          generate_samples env generator1 k (samples @ [sample]) w1
      | (SystemExit code, generator1, w1) \<Rightarrow> (SystemExit code, generator1, w1)
      | (Raised e, generator1, w1) \<Rightarrow> (Raised e, generator1, w1))"

text \<open>
  \<^verbatim>\<open>num_samples_for_generator = int(number_of_samples * percentage)\<close>: the integer is
  converted to a float, the product is rounded, and \<^verbatim>\<open>int\<close> truncates it.
\<close>

definition num_samples_for_generator :: "int \<Rightarrow> pyfloat \<Rightarrow> error + int" where
  "num_samples_for_generator number_of_samples percentage =
     (case float_of_int number_of_samples of
        Inl e \<Rightarrow> Inl e
      | Inr n \<Rightarrow> int_of_float (float_mul n percentage))"

text \<open>
  The outer loop over \<^verbatim>\<open>self.generators\<close>; the generators are returned as the loop
  leaves them. An exception of the conversion ends the loop like one of a generator.
\<close>

fun generate_loop ::
  "environment \<Rightarrow> (generator \<times> pyfloat) list \<Rightarrow> int \<Rightarrow> qa_tagged list \<Rightarrow> world
    \<Rightarrow> qa_tagged list outcome \<times> (generator \<times> pyfloat) list \<times> world" where
  "generate_loop env [] number_of_samples samples w = (Returned samples, [], w)"
| "generate_loop env ((generator, percentage) # rest) number_of_samples samples w =
     (case num_samples_for_generator number_of_samples percentage of
        Inl e \<Rightarrow> (Raised e, (generator, percentage) # rest, w)
      | Inr num \<Rightarrow>
         if num = 0
         then (case generate_loop env rest number_of_samples samples w of
                 (result, rest1, w1) \<Rightarrow> (result, (generator, percentage) # rest1, w1))
         else (case generate_samples env generator (nat num) samples w of
                 (Returned samples1, generator1, w1) \<Rightarrow>
                   (case generate_loop env rest number_of_samples samples1 w1 of
                      (result, rest1, w2) \<Rightarrow> (result, (generator1, percentage) # rest1, w2))
               | (SystemExit code, generator1, w1) \<Rightarrow>
                   (SystemExit code, (generator1, percentage) # rest, w1)
               | (Raised e, generator1, w1) \<Rightarrow>
                   (Raised e, (generator1, percentage) # rest, w1)))"

text \<open>\<^verbatim>\<open>QAFactory.generate\<close>: the samples and the path of the file they were saved to.\<close>

definition QAFactory_generate ::
  "environment \<Rightarrow> qa_factory \<Rightarrow> int \<Rightarrow> world
    \<Rightarrow> (qa_tagged list \<times> string) outcome \<times> qa_factory \<times> world" where
  "QAFactory_generate env self number_of_samples w =
     (case generate_loop env (generators self) number_of_samples [] w of
        (Returned samples, gens, w1) \<Rightarrow>
          (case save_qa_to_json env self samples w1 of
             (full_path, w2) \<Rightarrow>
               (Returned (samples, full_path), self\<lparr>generators := gens\<rparr>, w2))
      | (SystemExit code, gens, w1) \<Rightarrow> (SystemExit code, self\<lparr>generators := gens\<rparr>, w1)
      | (Raised e, gens, w1) \<Rightarrow> (Raised e, self\<lparr>generators := gens\<rparr>, w1))"

section \<open>Vocabulary for the properties\<close>

text \<open>
  The stages of one pass through \<open>generate\<close>, named so that the properties below can
  speak of them: the seeding and context building, the draft, and the whole pass up to
  the point where \<open>generate\<close> either returns or calls \<open>retry_logic\<close>.
\<close>

definition seed_context :: "environment \<Rightarrow> world \<Rightarrow> (error + string) \<times> world" where
  "seed_context env w =
     (case get_random_chunk env w of (random_chunk, w1) \<Rightarrow>
      case get_all_chunks_of_document env random_chunk w1 of (all_chunks_for_document, w2) \<Rightarrow>
        (build_context (sort_chunks_by_part_number env all_chunks_for_document), w2))"

definition draft ::
  "environment \<Rightarrow> generator \<Rightarrow> string \<Rightarrow> world
    \<Rightarrow> (error + diversity_injection \<times> completion) \<times> world" where
  "draft env self context w2 =
     (case get_diversity_injection (diversity_config self) env w2 of
        (Inl e, w3) \<Rightarrow> (Inl e, w3)
      | (Inr injection, w3) \<Rightarrow>
         (case chat_parse_qa env
                 (build_system_prompt (generator_class self) context injection) w3 of
            (qa_completion, w4) \<Rightarrow> (Inr (injection, qa_completion), w4)))"

definition invokes_retry_tool :: "completion \<Rightarrow> bool" where
  "invokes_retry_tool qa_completion =
     (tool_calls qa_completion \<noteq> [] \<and> hd (tool_calls qa_completion) = ''_retry_logic'')"

datatype attempt_result = Retry world | Finished "qa_tagged outcome" world

definition attempt :: "environment \<Rightarrow> generator \<Rightarrow> world \<Rightarrow> attempt_result" where
  "attempt env self w =
     (case seed_context env w of
        (Inl e, w2) \<Rightarrow> Retry w2
      | (Inr context, w2) \<Rightarrow>
         (case draft env self context w2 of
            (Inl e, w3) \<Rightarrow> Finished (Raised e) w3
          | (Inr (injection, qa_completion), w4) \<Rightarrow>
              if invokes_retry_tool qa_completion then Retry w4
              else (case parsed qa_completion of
                      None \<Rightarrow> Finished (Raised AttributeError) w4
                    | Some qa \<Rightarrow>
                       (case verify_qa (generator_class self) env qa w4 of
                          (verify_qa_result, w5) \<Rightarrow>
                            if \<not> is_correct verify_qa_result then Retry w5
                            else (case get_chunk_content_by_ids env (qa.chunk_ids qa) w5 of
                                    (contents, w6) \<Rightarrow>
                                      Finished
                                        (Returned
                                           \<lparr>qa_tagged.question = qa.question qa,
                                            ground_truth_answer = qa.ground_truth_answer qa,
                                            tags = get_tags (generator_class self),
                                            diversity_injection = injection,
                                            chunk_ids = qa.chunk_ids qa,
                                            chunk_content = contents\<rparr>) w6)))))"

text \<open>
  The number of passes through \<open>generate\<close> a world has seen: each pass starts with one
  call of \<open>get_random_chunk\<close>, and nothing else calls it.
\<close>

definition seedings :: "world \<Rightarrow> nat" where
  "seedings w = count_list w Get_random_chunk"

text \<open>A completion the engine can use: it invokes the retry tool or carries a parsed QA.\<close>

definition usable :: "completion \<Rightarrow> bool" where
  "usable qa_completion = (invokes_retry_tool qa_completion \<or> parsed qa_completion \<noteq> None)"

subsection \<open>An example environment\<close>

text \<open>
  The end-to-end example: the index holds the one chunk \<open>c1\<close>, the model drafts the
  fee question from it, and the verdict of the judging model is a parameter, a function
  of the number of capability calls made before the judgement.
\<close>

definition fee_chunk :: search_record where
  "fee_chunk = \<lparr>record_id = ''c1'', document_id = ''d1'', part_number = 0,
                 title = ''Fees'', content = ''Fee is $500''\<rparr>"

definition fee_qa :: qa where
  "fee_qa = \<lparr>qa.question = ''What is the fee?'', ground_truth_answer = ''$500'',
              chunk_ids = [''c1'']\<rparr>"

definition fee_environment :: "(nat \<Rightarrow> bool) \<Rightarrow> environment" where
  "fee_environment verdict =
     \<lparr>random_chunk_at = (\<lambda>n. fee_chunk),
      all_chunks_of_document_at = (\<lambda>n r. [fee_chunk]),
      sorted_by_part_number = (\<lambda>rs. rs),
      search_records_by_ids_at = (\<lambda>n ids. filter (\<lambda>r. record_id r \<in> set ids) [fee_chunk]),
      lognormal_at = (\<lambda>n m s. Finite (1 / 4)),
      choice_at = (\<lambda>n names p. hd names),
      parse_qa_at = (\<lambda>n p. \<lparr>tool_calls = [], parsed = Some fee_qa\<rparr>),
      parse_verification_at = (\<lambda>n p. \<lparr>is_correct = verdict n, reason = ''judged''\<rparr>),
      timestamp_at = (\<lambda>n. ''20250101_000000''),
      builtin_sum = left_to_right_sum\<rparr>"

definition main_config :: length_distribution_config where
  "main_config = \<lparr>mean = Finite 2, sigma = round64 (4 / 5), shift = Finite 3\<rparr>"

definition accepting_environment :: environment where
  "accepting_environment = fee_environment (\<lambda>n. True)"

definition rejecting_environment :: environment where
  "rejecting_environment = fee_environment (\<lambda>n. False)"

text \<open>
  The judge accepts one judgement only, the eighteenth capability call: in a fresh world
  that is the verdict on the second draft.
\<close>

definition once_accepting_environment :: environment where
  "once_accepting_environment = fee_environment (\<lambda>n. n = 17)"

definition half_shift_config :: length_distribution_config where
  "half_shift_config = \<lparr>mean = Finite 2, sigma = round64 (4 / 5), shift = Finite (7 / 2)\<rparr>"

definition single_hop :: generator where
  "single_hop = new_generator SingleHopOneDocGenerator main_config"

definition multi_hop :: generator where
  "multi_hop = new_generator MultiHopOneDocGenerator main_config"

text \<open>The judge accepts the grounding of a draft verified first thing, and nothing else.\<close>

definition grounded_only_environment :: environment where
  "grounded_only_environment = fee_environment (\<lambda>n. n = 1)"

text \<open>
  The document of the first seed chunk has no chunks, so that no context can be built in
  the first pass (the fetch of the document is the second capability call).
\<close>

definition empty_first_environment :: environment where
  "empty_first_environment =
     accepting_environment
       \<lparr>all_chunks_of_document_at := (\<lambda>n r. if n = 1 then [] else [fee_chunk])\<rparr>"

text \<open>The drafting model calls the retry tool in the first pass (its seventh call).\<close>

definition abstaining_first_environment :: environment where
  "abstaining_first_environment =
     accepting_environment
       \<lparr>parse_qa_at :=
          (\<lambda>n p. if n = 6 then \<lparr>tool_calls = [''_retry_logic''], parsed = None\<rparr>
                 else \<lparr>tool_calls = [], parsed = Some fee_qa\<rparr>)\<rparr>"

text \<open>The log-normal draw overflows, as it does for the mean 1000.\<close>

definition overflowing_environment :: environment where
  "overflowing_environment = accepting_environment\<lparr>lognormal_at := (\<lambda>n m s. PosInf)\<rparr>"

definition fee_context :: string where
  "fee_context = ''Document Title: Fees\<newline>\<newline>CHUNK_ID: c1\<newline>Content: Fee is $500''"

definition fee_injection :: diversity_injection where
  "fee_injection = \<lparr>response_length = 3, tone_injection = [], disruptive_injection = [],
                     language_injection = ''English''\<rparr>"

definition seeded :: world where
  "seeded = [Get_all_chunks_of_document, Get_random_chunk]"

definition drafted :: world where
  "drafted = [Chat_parse_qa, Random_choice, Random_choice, Random_choice, Random_lognormal,
              Get_all_chunks_of_document, Get_random_chunk]"

definition verified :: world where
  "verified = [Chat_parse_verification, Get_search_records_by_ids,
               Chat_parse_qa, Random_choice, Random_choice, Random_choice, Random_lognormal,
               Get_all_chunks_of_document, Get_random_chunk]"

text \<open>The sample that the example environments yield, and the world after the second pass.\<close>

definition fee_sample :: "generator_class \<Rightarrow> qa_tagged" where
  "fee_sample cls =
     \<lparr>qa_tagged.question = ''What is the fee?'',
      ground_truth_answer = ''$500'',
      tags = get_tags cls,
      diversity_injection = fee_injection,
      chunk_ids = [''c1''],
      chunk_content = [''Fee is $500'']\<rparr>"

definition pass_calls :: world where
  "pass_calls = [Chat_parse_verification, Get_search_records_by_ids,
                 Chat_parse_qa, Random_choice, Random_choice, Random_choice, Random_lognormal,
                 Get_all_chunks_of_document, Get_random_chunk]"

definition second_pass_accepted :: world where
  "second_pass_accepted = Get_search_records_by_ids # pass_calls @ pass_calls"

text \<open>
  The plan of \<^verbatim>\<open>main.py\<close>, and a plan whose percentages sum to more than 1 within the
  tolerance of the constructor (both percentages are exact binary fractions).
\<close>

definition main_plan :: "(generator \<times> pyfloat) list" where
  "main_plan = [(single_hop, Finite (1 / 2)), (multi_hop, Finite (1 / 2))]"


text \<open>
  The floats that the literals \<^verbatim>\<open>0.99\<close> and \<^verbatim>\<open>0.02\<close> denote, as a plan: their exact
  sum is within one hundredth of 1.
\<close>

definition boundary_plan :: "(generator \<times> pyfloat) list" where
  "boundary_plan =
     [(single_hop, Finite (4458563631096791 / 4503599627370496)),
      (multi_hop, Finite (5764607523034235 / 288230376151711744))]"

text \<open>
  The number of samples that the factory asks a generator for: the count that
  \<open>num_samples_for_generator\<close> returns, as the length of a \<^verbatim>\<open>range\<close>.
\<close>

definition requested :: "int \<Rightarrow> pyfloat \<Rightarrow> nat" where
  "requested number_of_samples percentage =
     (case num_samples_for_generator number_of_samples percentage of
        Inl e \<Rightarrow> 0
      | Inr num \<Rightarrow> nat num)"


section \<open>Properties\<close>

subsection \<open>Binary64 values\<close>

text \<open>
  The rounding evaluates on a rational number by unfolding; the values the examples need
  are binary fractions, which round to themselves, and the decimal literals of the plans.
\<close>

lemmas round64_eval =
  round64_def binary_exponent.simps round_half_even_def Let_def power_int_def power_one_over

lemma round64_values:
  "round64 0 = Finite 0"
  "round64 1 = Finite 1"
  "round64 3 = Finite 3"
  "round64 6 = Finite 6"
  "round64 100 = Finite 100"
  "round64 128 = Finite 128"
  "round64 (1 / 2) = Finite (1 / 2)"
  "round64 (- (1 / 2)) = Finite (- (1 / 2))"
  "round64 (3 / 2) = Finite (3 / 2)"
  "round64 (13 / 4) = Finite (13 / 4)"
  "round64 (15 / 4) = Finite (15 / 4)"
  "round64 (1 / 128) = Finite (1 / 128)"
  "round64 (129 / 128) = Finite (129 / 128)"
  by (simp_all add: round64_eval)

lemma round64_hundredth:
  "round64 (1 / 100) = Finite (5764607523034235 / 576460752303423488)"
  by (simp add: round64_eval)

lemma round64_literals:
  "round64 (99 / 100) = Finite (4458563631096791 / 4503599627370496)"
  "round64 (1 / 50) = Finite (5764607523034235 / 288230376151711744)"
  "round64 (71 / 100) = Finite (799388933858263 / 1125899906842624)"
  by (simp_all add: round64_eval)


lemma float_le_unit:
  "float_le (Finite 0) p \<and> float_le p (Finite 1) \<longleftrightarrow> (\<exists>q. p = Finite q \<and> 0 \<le> q \<and> q \<le> 1)"
  by (cases p) auto

subsection \<open>Auxiliary facts\<close>

lemma find_Some_member: "find P xs = Some x \<Longrightarrow> x \<in> set xs \<and> P x"
  by (induction xs) (auto split: if_splits)

lemma get_response_length_eq:
  "get_response_length config env w
     = (int_of_float (py_max (shift config)
          (float_add (lognormal_at env (length w) (mean config) (sigma config))
             (shift config))),
        Random_lognormal # w)"
  by (simp add: get_response_length_def random_lognormal_def Let_def)

lemma generate_attempt:
  "generate env self w =
     (case attempt env self w of
        Retry w' \<Rightarrow> retry_logic env self w'
      | Finished r w' \<Rightarrow> (r, self, w'))"
  by (subst generate.simps)
     (simp add: attempt_def seed_context_def draft_def invokes_retry_tool_def
        split: prod.splits sum.splits option.splits)

lemma multi_hop_check_extends_world:
  "length w < length (snd (verify_qa_question_requires_multi_hop env qa w))"
  by (simp add: verify_qa_question_requires_multi_hop_def get_search_records_by_ids_def
      chat_parse_verification_def split: sum.splits)

lemma retry_logic_below_max:
  "retry_count self < MAX_RETRIES \<Longrightarrow>
   retry_logic env self w = generate env (self\<lparr>retry_count := retry_count self + 1\<rparr>) w"
  by (simp add: retry_logic.simps)

lemma draft_world:
  "draft env self context w2 = (Inr (injection, qa_completion), w4) \<Longrightarrow>
   w4 = [Chat_parse_qa, Random_choice, Random_choice, Random_choice, Random_lognormal] @ w2"
  by (auto simp: draft_def get_diversity_injection_def get_response_length_eq
      get_tone_injection_def get_disruptive_injection_def
      get_language_injection_def weighted_choice_def random_choice_def chat_parse_qa_def Let_def
      split: prod.splits sum.splits)

lemma draft_error_world:
  "draft env self context w2 = (Inl e, w3) \<Longrightarrow> w3 = [Random_lognormal] @ w2"
  by (auto simp: draft_def get_diversity_injection_def get_response_length_eq
      get_tone_injection_def get_disruptive_injection_def
      get_language_injection_def weighted_choice_def random_choice_def chat_parse_qa_def Let_def
      split: prod.splits sum.splits)

lemma draft_returns:
  assumes "fst (get_response_length (diversity_config self) env w2) = Inr k"
  shows "\<exists>injection qa_completion w4.
           draft env self context w2 = (Inr (injection, qa_completion), w4)"
  using assms
  by (auto simp: draft_def get_diversity_injection_def get_response_length_eq
      split: prod.splits sum.splits)

subsection \<open>The example environments, stage by stage\<close>

lemmas fee_defs =
  accepting_environment_def rejecting_environment_def fee_environment_def fee_chunk_def
  fee_qa_def fee_context_def
  fee_injection_def seeded_def drafted_def verified_def single_hop_def multi_hop_def
  new_generator_def main_config_def

lemmas capability_defs =
  get_random_chunk_def get_all_chunks_of_document_def sort_chunks_by_part_number_def
  get_search_records_by_ids_def random_lognormal_def random_choice_def chat_parse_qa_def
  chat_parse_verification_def

lemmas context_defs =
  build_context_def Let_def get_search_record_title_def get_search_record_id_def
  get_search_record_content_def

lemmas diversity_defs =
  get_diversity_injection_def get_response_length_eq get_tone_injection_def
  get_disruptive_injection_def get_language_injection_def weighted_choice_def py_int_def
  py_max_def round64_values




lemma grounded_only_chunk_connection:
  "verify_qa_chunk_connection grounded_only_environment fee_qa []
     = (\<lparr>is_correct = True, reason = ''judged''\<rparr>,
        [Chat_parse_verification, Get_search_records_by_ids])"
  by (simp add: verify_qa_chunk_connection_def get_search_records_by_ids_def
      grounded_only_environment_def fee_environment_def fee_qa_def fee_chunk_def
      build_context_def Let_def get_search_record_title_def get_search_record_id_def
      get_search_record_content_def chat_parse_verification_def)

lemma grounded_only_multi_hop:
  "verify_qa_question_requires_multi_hop grounded_only_environment fee_qa
       [Chat_parse_verification, Get_search_records_by_ids]
     = (\<lparr>is_correct = False, reason = ''judged''\<rparr>,
        [Chat_parse_verification, Get_search_records_by_ids,
         Chat_parse_verification, Get_search_records_by_ids])"
  by (simp add: verify_qa_question_requires_multi_hop_def get_search_records_by_ids_def
      grounded_only_environment_def fee_environment_def fee_qa_def fee_chunk_def
      build_context_def Let_def get_search_record_title_def get_search_record_id_def
      get_search_record_content_def chat_parse_verification_def)

subsection \<open>The worlds and the retries of a pass\<close>

lemma chunk_connection_world:
  "\<exists>xs. snd (verify_qa_chunk_connection env qa w) = xs @ w \<and> Get_random_chunk \<notin> set xs"
  by (simp add: verify_qa_chunk_connection_def get_search_records_by_ids_def
      chat_parse_verification_def split: sum.splits)

lemma multi_hop_world:
  "\<exists>xs. snd (verify_qa_question_requires_multi_hop env qa w) = xs @ w
        \<and> Get_random_chunk \<notin> set xs"
  by (simp add: verify_qa_question_requires_multi_hop_def get_search_records_by_ids_def
      chat_parse_verification_def split: sum.splits)

lemma verify_qa_world:
  "\<exists>xs. snd (verify_qa cls env qa w) = xs @ w \<and> Get_random_chunk \<notin> set xs"
proof (cases cls)
  case SingleHopOneDocGenerator
  then show ?thesis
    using chunk_connection_world [of env qa w]
    by (auto simp: single_hop_verify_qa_def split: prod.splits)
next
  case MultiHopOneDocGenerator
  obtain g w1 where g: "verify_qa_chunk_connection env qa w = (g, w1)"
    by (cases "verify_qa_chunk_connection env qa w")
  obtain m w2 where m: "verify_qa_question_requires_multi_hop env qa w1 = (m, w2)"
    by (cases "verify_qa_question_requires_multi_hop env qa w1")
  from g chunk_connection_world [of env qa w]
  obtain xs where xs: "w1 = xs @ w" "Get_random_chunk \<notin> set xs" by auto
  from m multi_hop_world [of env qa w1]
  obtain ys where ys: "w2 = ys @ w1" "Get_random_chunk \<notin> set ys" by auto
  have "w2 = (ys @ xs) @ w" "Get_random_chunk \<notin> set (ys @ xs)"
    using xs ys by simp_all
  then show ?thesis
    using MultiHopOneDocGenerator g m xs
    by (auto simp: multi_hop_verify_qa_def simp del: append_assoc)
qed

lemma seed_context_world:
  "snd (seed_context env w) = Get_all_chunks_of_document # Get_random_chunk # w"
  by (simp add: seed_context_def get_random_chunk_def get_all_chunks_of_document_def)

lemma attempt_world:
  assumes "attempt env self w = Retry w' \<or> attempt env self w = Finished r w'"
  shows "\<exists>xs. w' = xs @ Get_random_chunk # w \<and> Get_random_chunk \<notin> set xs"
proof -
  obtain c w2 where s: "seed_context env w = (c, w2)" by (cases "seed_context env w")
  with seed_context_world [of env w]
  have w2: "w2 = [Get_all_chunks_of_document] @ Get_random_chunk # w" by simp
  show ?thesis
  proof (cases c)
    case (Inl e)
    with assms s w2 show ?thesis by (auto simp: attempt_def)
  next
    case (Inr ctx)
    obtain d w4 where d: "draft env self ctx w2 = (d, w4)"
      by (cases "draft env self ctx w2")
    show ?thesis
    proof (cases d)
      case (Inl e)
      with d have "draft env self ctx w2 = (Inl e, w4)" by simp
      from draft_error_world [OF this] w2
      have "w4 = [Random_lognormal, Get_all_chunks_of_document] @ Get_random_chunk # w"
        by simp
      moreover from assms s \<open>c = Inr ctx\<close> d Inl have "w' = w4" by (auto simp: attempt_def)
      ultimately show ?thesis
        by (intro exI [of _ "[Random_lognormal, Get_all_chunks_of_document]"]) simp
    next
      case (Inr pair)
      obtain injection qa_completion where pair: "pair = (injection, qa_completion)"
        by (cases pair)
      with d Inr have d: "draft env self ctx w2 = (Inr (injection, qa_completion), w4)"
        by simp
      note ctx = \<open>c = Inr ctx\<close>
      from draft_world [OF d] w2
      have w4: "w4 = [Chat_parse_qa, Random_choice, Random_choice, Random_choice,
          Random_lognormal, Get_all_chunks_of_document] @ Get_random_chunk # w" by simp
      show ?thesis
      proof (cases "invokes_retry_tool qa_completion")
      case True
      with assms s ctx d have "w' = w4" by (auto simp: attempt_def)
      with w4 show ?thesis by (intro exI [of _ "[Chat_parse_qa, Random_choice, Random_choice,
        Random_choice, Random_lognormal, Get_all_chunks_of_document]"]) simp
    next
      case False
      show ?thesis
      proof (cases "parsed qa_completion")
        case None
        with assms s ctx d False have "w' = w4" by (auto simp: attempt_def)
        with w4 show ?thesis by (intro exI [of _ "[Chat_parse_qa, Random_choice,
          Random_choice, Random_choice, Random_lognormal, Get_all_chunks_of_document]"]) simp
      next
        case (Some qa)
        obtain v w5 where v: "verify_qa (generator_class self) env qa w4 = (v, w5)"
          by (cases "verify_qa (generator_class self) env qa w4")
        from v verify_qa_world [of "generator_class self" env qa w4]
        obtain ys where ys: "w5 = ys @ w4" "Get_random_chunk \<notin> set ys" by auto
        have "w' = w5 \<or> w' = Get_search_records_by_ids # w5"
          using assms s ctx d False Some v
          by (auto simp: attempt_def get_chunk_content_by_ids_def get_search_records_by_ids_def
              split: if_splits)
        then show ?thesis
        proof
          assume "w' = w5"
          with ys w4 show ?thesis
            by (intro exI [of _ "ys @ [Chat_parse_qa, Random_choice, Random_choice,
              Random_choice, Random_lognormal, Get_all_chunks_of_document]"]) simp
        next
          assume "w' = Get_search_records_by_ids # w5"
          with ys w4 show ?thesis
            by (intro exI [of _ "Get_search_records_by_ids # ys @ [Chat_parse_qa,
              Random_choice, Random_choice, Random_choice, Random_lognormal,
              Get_all_chunks_of_document]"]) simp
        qed
      qed
    qed
    qed
  qed
qed

lemma attempt_seedings:
  assumes "attempt env self w = Retry w' \<or> attempt env self w = Finished r w'"
  shows "seedings w' = Suc (seedings w)" and "length w < length w'"
proof -
  from attempt_world [OF assms]
  obtain xs where xs: "w' = xs @ Get_random_chunk # w" "Get_random_chunk \<notin> set xs" by auto
  then have "count_list xs Get_random_chunk = 0" by (simp add: count_list_0_iff)
  with xs show "seedings w' = Suc (seedings w)" by (simp add: seedings_def)
  from xs show "length w < length w'" by simp
qed

lemma chunk_connection_fails:
  assumes "\<forall>n\<ge>length w. \<forall>p. \<not> is_correct (parse_verification_at env n p)"
  shows "\<not> is_correct (fst (verify_qa_chunk_connection env qa w))"
  using assms
  by (simp add: verify_qa_chunk_connection_def get_search_records_by_ids_def
      chat_parse_verification_def split: sum.splits)

lemma verify_qa_fails:
  assumes "\<forall>n\<ge>length w. \<forall>p. \<not> is_correct (parse_verification_at env n p)"
  shows "\<not> is_correct (fst (verify_qa cls env qa w))"
  using chunk_connection_fails [OF assms, of qa]
  by (cases cls) (auto simp: single_hop_verify_qa_def multi_hop_verify_qa_def split: prod.splits)

lemma draft_completion:
  "draft env self ctx w2 = (Inr (injection, qa_completion), w4) \<Longrightarrow>
   qa_completion = parse_qa_at env (Suc (Suc (Suc (Suc (length w2)))))
     (build_system_prompt (generator_class self) ctx injection)"
  by (auto simp: draft_def get_diversity_injection_def get_response_length_eq
      get_tone_injection_def get_disruptive_injection_def
      get_language_injection_def weighted_choice_def random_choice_def chat_parse_qa_def Let_def
      split: prod.splits sum.splits)

lemma attempt_retries:
  assumes v: "\<forall>n\<ge>length w. \<forall>p. \<not> is_correct (parse_verification_at env n p)"
    and u: "\<forall>n\<ge>length w. \<forall>p. usable (parse_qa_at env n p)"
    and l: "\<forall>w2. \<exists>k. fst (get_response_length (diversity_config self) env w2) = Inr k"
  shows "\<exists>w'. attempt env self w = Retry w'"
proof -
  obtain c w2 where s: "seed_context env w = (c, w2)" by (cases "seed_context env w")
  show ?thesis
  proof (cases c)
    case (Inl e)
    with s show ?thesis by (simp add: attempt_def)
  next
    case (Inr ctx)
    from l obtain k where "fst (get_response_length (diversity_config self) env w2) = Inr k"
      by blast
    from draft_returns [OF this]
    obtain injection qa_completion w4
      where d: "draft env self ctx w2 = (Inr (injection, qa_completion), w4)"
      by blast
    from seed_context_world [of env w] s have w2: "length w \<le> length w2" by simp
    from draft_world [OF d] have w4: "w4 = [Chat_parse_qa, Random_choice, Random_choice,
      Random_choice, Random_lognormal] @ w2" .
    have "length w \<le> Suc (Suc (Suc (Suc (length w2))))" using w2 by simp
    with u draft_completion [OF d] have us: "usable qa_completion" by simp
    have "\<forall>n\<ge>length w4. \<forall>p. \<not> is_correct (parse_verification_at env n p)"
      using v w2 w4 by simp
    from verify_qa_fails [OF this]
    have f: "\<And>qa. \<not> is_correct (fst (verify_qa (generator_class self) env qa w4))" .
    show ?thesis
    proof (cases "invokes_retry_tool qa_completion")
      case True
      with s Inr d show ?thesis by (simp add: attempt_def)
    next
      case False
      with us obtain qa where "parsed qa_completion = Some qa" by (auto simp: usable_def)
      with s Inr d False f [of qa] show ?thesis
        by (auto simp: attempt_def split: prod.splits)
    qed
  qed
qed

lemma exhausts_from:
  assumes "retry_count self \<le> MAX_RETRIES"
    and "\<forall>n\<ge>length w. \<forall>p. \<not> is_correct (parse_verification_at env n p)"
    and "\<forall>n\<ge>length w. \<forall>p. usable (parse_qa_at env n p)"
    and "\<forall>w2. \<exists>k. fst (get_response_length (diversity_config self) env w2) = Inr k"
  shows "\<exists>w'. generate env self w
            = (SystemExit 1, self\<lparr>retry_count := MAX_RETRIES\<rparr>, w')
          \<and> seedings w' = seedings w + (MAX_RETRIES + 1 - retry_count self)"
  using assms
proof (induction "MAX_RETRIES - retry_count self" arbitrary: self w)
  case 0
  then have rc: "retry_count self = MAX_RETRIES" by simp
  from attempt_retries [OF "0.prems"(2,3,4)]
  obtain w1 where a: "attempt env self w = Retry w1" by blast
  from attempt_seedings(1) [of env self w w1] a
  have s: "seedings w1 = Suc (seedings w)" by simp
  have "generate env self w = (SystemExit 1, self, w1)"
    using a rc by (simp add: generate_attempt retry_logic.simps)
  moreover have "self\<lparr>retry_count := MAX_RETRIES\<rparr> = self"
    using rc by simp
  ultimately show ?case using s rc by simp
next
  case (Suc k)
  then have rc: "retry_count self < MAX_RETRIES" by simp
  from attempt_retries [OF Suc.prems(2,3,4)]
  obtain w1 where a: "attempt env self w = Retry w1" by blast
  from attempt_seedings [of env self w w1] a
  have s: "seedings w1 = Suc (seedings w)" and l: "length w < length w1" by simp_all
  let ?next = "self\<lparr>retry_count := retry_count self + 1\<rparr>"
  have g: "generate env self w = generate env ?next w1"
    using a rc by (simp add: generate_attempt retry_logic_below_max)
  have k: "k = MAX_RETRIES - retry_count ?next" using Suc.hyps(2) by simp
  have le: "retry_count ?next \<le> MAX_RETRIES" using rc by simp
  have v: "\<forall>n\<ge>length w1. \<forall>p. \<not> is_correct (parse_verification_at env n p)"
    using Suc.prems(2) l by simp
  have u: "\<forall>n\<ge>length w1. \<forall>p. usable (parse_qa_at env n p)"
    using Suc.prems(3) l by simp
  have d: "\<forall>w2. \<exists>k. fst (get_response_length (diversity_config ?next) env w2) = Inr k"
    using Suc.prems(4) by simp
  from Suc.hyps(1) [OF k le v u d]
  obtain w' where w': "generate env ?next w1
        = (SystemExit 1, ?next\<lparr>retry_count := MAX_RETRIES\<rparr>, w')"
      "seedings w' = seedings w1 + (MAX_RETRIES + 1 - retry_count ?next)"
    by blast
  have "seedings w' = seedings w + (MAX_RETRIES + 1 - retry_count self)"
    using w'(2) s rc by simp
  with g w'(1) show ?case by simp
qed

lemma generate_samples_exit:
  "generate env generator w = (SystemExit code, generator1, w1) \<Longrightarrow>
   generate_samples env generator (Suc k) samples w = (SystemExit code, generator1, w1)"
  by simp

lemma QAFactory_generate_exit:
  assumes "generate env generator w = (SystemExit code, generator1, w1)"
    and "0 < requested number_of_samples percentage"
  shows "QAFactory_generate env
           \<lparr>generators = (generator, percentage) # rest, output_folder = folder\<rparr>
           number_of_samples w
         = (SystemExit code,
            \<lparr>generators = (generator1, percentage) # rest, output_folder = folder\<rparr>, w1)"
proof -
  from assms(2) obtain num
    where num: "num_samples_for_generator number_of_samples percentage = Inr num" "0 < num"
    by (auto simp: requested_def split: sum.splits)
  then obtain k where k: "nat num = Suc k" by (cases "nat num") auto
  show ?thesis
    using assms(1) num generate_samples_exit [OF assms(1), of k "[]"]
    by (simp add: QAFactory_generate_def Let_def k)
qed

lemma fee_seed_context:
  "seed_context (fee_environment verdict) w
     = (Inr fee_context, Get_all_chunks_of_document # Get_random_chunk # w)"
  by (simp add: seed_context_def fee_defs capability_defs context_defs)

lemma fee_draft:
  "diversity_config self = main_config \<Longrightarrow>
   draft (fee_environment verdict) self fee_context w
     = (Inr (fee_injection, \<lparr>tool_calls = [], parsed = Some fee_qa\<rparr>),
        Chat_parse_qa # Random_choice # Random_choice # Random_choice # Random_lognormal # w)"
  by (simp add: draft_def fee_defs capability_defs diversity_defs)

lemma fee_chunk_connection:
  "verify_qa_chunk_connection (fee_environment verdict) fee_qa w
     = (\<lparr>is_correct = verdict (Suc (length w)), reason = ''judged''\<rparr>,
        Chat_parse_verification # Get_search_records_by_ids # w)"
  by (simp add: verify_qa_chunk_connection_def fee_defs capability_defs context_defs)

lemma fee_requires_multi_hop:
  "verify_qa_question_requires_multi_hop (fee_environment verdict) fee_qa w
     = (\<lparr>is_correct = verdict (Suc (length w)), reason = ''judged''\<rparr>,
        Chat_parse_verification # Get_search_records_by_ids # w)"
  by (simp add: verify_qa_question_requires_multi_hop_def fee_defs capability_defs context_defs)

lemma fee_usable: "usable (parse_qa_at (fee_environment verdict) n p)"
  by (simp add: usable_def fee_environment_def)

lemma fee_verdict:
  "is_correct (parse_verification_at (fee_environment verdict) n p) = verdict n"
  by (simp add: fee_environment_def)

lemma fee_response_length:
  "fst (get_response_length main_config (fee_environment verdict) w) = Inr 3"
  by (simp add: get_response_length_eq fee_environment_def main_config_def py_max_def
      round64_values py_int_def)

text \<open>
  The sum of the draw and the shift is rounded before the conversion: for the shift 3 and
  the draw \<open>1 - 2 powi (- 53)\<close>, the largest float below 1, the sum is the float 4 and the
  length is 4, although the exact sum is below 4.
\<close>

lemma response_length_rounds_sum:
  "fst (get_response_length main_config
          (accepting_environment
             \<lparr>lognormal_at := (\<lambda>n m s. Finite (9007199254740991 / 9007199254740992))\<rparr>) [])
     = Inr 4"
  by (simp add: get_response_length_eq main_config_def py_max_def py_int_def round64_eval)

subsection \<open>The retry counter across passes and samples\<close>

lemma attempt_returned_tags:
  "attempt env self w = Finished (Returned t) w' \<Longrightarrow>
   qa_tagged.tags t = get_tags (generator_class self)"
  by (auto simp: attempt_def split: prod.splits sum.splits if_splits option.splits)

lemma generate_retry_counter:
  assumes "generate env self w = (r, self', w')"
  shows "self' = self\<lparr>retry_count := retry_count self'\<rparr>
         \<and> retry_count self \<le> retry_count self'
         \<and> (retry_count self \<le> MAX_RETRIES \<longrightarrow> retry_count self' \<le> MAX_RETRIES)
         \<and> seedings w' = seedings w + 1 + (retry_count self' - retry_count self)
         \<and> (\<forall>t. r = Returned t \<longrightarrow> qa_tagged.tags t = get_tags (generator_class self))"
  using assms
proof (induction "MAX_RETRIES - retry_count self" arbitrary: self w)
  case 0
  then have rc: "\<not> retry_count self < MAX_RETRIES" by simp
  show ?case
  proof (cases "attempt env self w")
    case (Retry w1)
    with "0.prems" rc have "r = SystemExit 1" "self' = self" "w' = w1"
      by (simp_all add: generate_attempt retry_logic.simps)
    with attempt_seedings(1) [of env self w w1] Retry show ?thesis by simp
  next
    case (Finished r1 w1)
    with "0.prems" have e: "r = r1" "self' = self" "w' = w1"
      by (simp_all add: generate_attempt)
    with attempt_seedings(1) [of env self w w1 r1] Finished attempt_returned_tags [of env self w _ w1]
    show ?thesis by auto
  qed
next
  case (Suc k)
  then have rc: "retry_count self < MAX_RETRIES" by simp
  show ?case
  proof (cases "attempt env self w")
    case (Retry w1)
    let ?next = "self\<lparr>retry_count := retry_count self + 1\<rparr>"
    from Retry Suc.prems rc have g: "generate env ?next w1 = (r, self', w')"
      by (simp add: generate_attempt retry_logic_below_max)
    have k: "k = MAX_RETRIES - retry_count ?next" using Suc.hyps(2) by simp
    from attempt_seedings(1) [of env self w w1] Retry
    have s: "seedings w1 = Suc (seedings w)" by simp
    from Suc.hyps(1) [OF k g]
    have ih: "self' = ?next\<lparr>retry_count := retry_count self'\<rparr>"
      "retry_count ?next \<le> retry_count self'"
      "retry_count ?next \<le> MAX_RETRIES \<longrightarrow> retry_count self' \<le> MAX_RETRIES"
      "seedings w' = seedings w1 + 1 + (retry_count self' - retry_count ?next)"
      "\<forall>t. r = Returned t \<longrightarrow> qa_tagged.tags t = get_tags (generator_class ?next)"
      by blast+
    from ih(1) have "self' = self\<lparr>retry_count := retry_count self'\<rparr>"
      by (metis generator.surjective generator.update_convs(3))
    moreover from ih(2) have "retry_count self \<le> retry_count self'" by simp
    moreover from ih(3) rc have "retry_count self' \<le> MAX_RETRIES" by simp
    moreover from ih(2,4) s
    have "seedings w' = seedings w + 1 + (retry_count self' - retry_count self)" by simp
    moreover from ih(5)
    have "\<forall>t. r = Returned t \<longrightarrow> qa_tagged.tags t = get_tags (generator_class self)" by simp
    ultimately show ?thesis by blast
  next
    case (Finished r1 w1)
    with Suc.prems have e: "r = r1" "self' = self" "w' = w1"
      by (simp_all add: generate_attempt)
    with attempt_seedings(1) [of env self w w1 r1] Finished attempt_returned_tags [of env self w _ w1]
    show ?thesis by auto
  qed
qed

lemma generate_samples_invariant:
  assumes "generate_samples env self k samples w = (r, self', w')"
  shows "self' = self\<lparr>retry_count := retry_count self'\<rparr>
         \<and> retry_count self \<le> retry_count self'
         \<and> (retry_count self \<le> MAX_RETRIES \<longrightarrow> retry_count self' \<le> MAX_RETRIES)
         \<and> (\<forall>xs. r = Returned xs \<longrightarrow>
               seedings w' = seedings w + k + (retry_count self' - retry_count self)
               \<and> (\<exists>new. xs = samples @ new \<and> length new = k
                     \<and> (\<forall>t \<in> set new. qa_tagged.tags t = get_tags (generator_class self))))"
  using assms
proof (induction k arbitrary: self samples w)
  case 0
  then show ?case by auto
next
  case (Suc k)
  obtain r1 self1 w1 where g: "generate env self w = (r1, self1, w1)"
    by (cases "generate env self w")
  note inv = generate_retry_counter [OF g]
  show ?case
  proof (cases r1)
    case (Returned sample)
    with g Suc.prems
    have rest: "generate_samples env self1 k (samples @ [sample]) w1 = (r, self', w')"
      by simp
    note ih = Suc.IH [OF rest]
    have cls: "generator_class self1 = generator_class self"
      using inv by (metis generator.select_convs(1) generator.surjective generator.update_convs(3))
    have tag: "qa_tagged.tags sample = get_tags (generator_class self)"
      using inv Returned by simp
    have a: "self' = self\<lparr>retry_count := retry_count self'\<rparr>"
      using ih inv by (metis generator.surjective generator.update_convs(3))
    have b: "retry_count self \<le> retry_count self'" using ih inv by linarith
    have c: "retry_count self \<le> MAX_RETRIES \<longrightarrow> retry_count self' \<le> MAX_RETRIES"
      using ih inv by blast
    have d: "\<forall>xs. r = Returned xs \<longrightarrow>
               seedings w' = seedings w + Suc k + (retry_count self' - retry_count self)
               \<and> (\<exists>new. xs = samples @ new \<and> length new = Suc k
                     \<and> (\<forall>t \<in> set new. qa_tagged.tags t = get_tags (generator_class self)))"
    proof (intro allI impI)
      fix xs assume r: "r = Returned xs"
      with ih obtain new where new: "xs = (samples @ [sample]) @ new" "length new = k"
          "\<forall>t \<in> set new. qa_tagged.tags t = get_tags (generator_class self1)"
        and s: "seedings w' = seedings w1 + k + (retry_count self' - retry_count self1)"
        by blast
      have "seedings w' = seedings w + Suc k + (retry_count self' - retry_count self)"
        using s inv ih by simp
      moreover have "xs = samples @ (sample # new)" using new(1) by simp
      moreover have "length (sample # new) = Suc k" using new(2) by simp
      moreover have "\<forall>t \<in> set (sample # new). qa_tagged.tags t = get_tags (generator_class self)"
        using new(3) tag cls by simp
      ultimately show "seedings w' = seedings w + Suc k + (retry_count self' - retry_count self)
        \<and> (\<exists>new. xs = samples @ new \<and> length new = Suc k
              \<and> (\<forall>t \<in> set new. qa_tagged.tags t = get_tags (generator_class self)))"
        by blast
    qed
    from a b c d show ?thesis by blast
  next
    case (SystemExit code)
    with g Suc.prems have "r = SystemExit code" "self' = self1" "w' = w1" by simp_all
    with inv show ?thesis by simp
  next
    case (Raised e)
    with g Suc.prems have "r = Raised e" "self' = self1" "w' = w1" by simp_all
    with inv show ?thesis by simp
  qed
qed

lemma fee_chunk_content:
  "get_chunk_content_by_ids (fee_environment verdict) (qa.chunk_ids fee_qa) w
     = ([''Fee is $500''], Get_search_records_by_ids # w)"
  by (simp add: get_chunk_content_by_ids_def get_search_records_by_ids_def fee_environment_def
      fee_qa_def fee_chunk_def get_search_record_content_def)

lemma fee_qa_fields:
  "qa.question fee_qa = ''What is the fee?''"
  "qa.ground_truth_answer fee_qa = ''$500''"
  "qa.chunk_ids fee_qa = [''c1'']"
  by (simp_all add: fee_qa_def)

lemma once_accepting_first_sample:
  "generate once_accepting_environment single_hop []
     = (Returned (fee_sample SingleHopOneDocGenerator), single_hop\<lparr>retry_count := 1\<rparr>,
        second_pass_accepted)"
proof -
  have c: "diversity_config single_hop = main_config"
      "diversity_config (single_hop\<lparr>retry_count := 1\<rparr>) = main_config"
      "generator_class single_hop = SingleHopOneDocGenerator"
      "retry_count single_hop = 0"
    by (simp_all add: single_hop_def new_generator_def)
  have first: "attempt once_accepting_environment single_hop [] = Retry pass_calls"
    by (simp add: attempt_def once_accepting_environment_def fee_seed_context fee_draft c
        invokes_retry_tool_def single_hop_verify_qa_def fee_chunk_connection pass_calls_def)
  have second: "attempt once_accepting_environment (single_hop\<lparr>retry_count := 1\<rparr>) pass_calls
      = Finished (Returned (fee_sample SingleHopOneDocGenerator)) second_pass_accepted"
    by (simp add: attempt_def once_accepting_environment_def fee_seed_context fee_draft c
        invokes_retry_tool_def single_hop_verify_qa_def fee_chunk_connection pass_calls_def
        fee_chunk_content fee_sample_def second_pass_accepted_def)
       (simp add: fee_qa_fields)
  have "retry_count single_hop < MAX_RETRIES" by (simp add: c MAX_RETRIES_def)
  from retry_logic_below_max [OF this, of once_accepting_environment pass_calls]
  have g1: "generate once_accepting_environment single_hop []
      = generate once_accepting_environment (single_hop\<lparr>retry_count := 1\<rparr>) pass_calls"
    by (simp add: generate_attempt [of _ single_hop] first c)
  have g2: "generate once_accepting_environment (single_hop\<lparr>retry_count := 1\<rparr>) pass_calls
      = (Returned (fee_sample SingleHopOneDocGenerator), single_hop\<lparr>retry_count := 1\<rparr>,
         second_pass_accepted)"
    by (subst generate_attempt) (simp only: second attempt_result.case)
  from g1 g2 show ?thesis by (rule trans)
qed

subsection \<open>The errors a call of \<open>generate\<close> can raise\<close>

lemma int_of_float_error:
  "int_of_float x = Inl e \<Longrightarrow>
   e = OverflowError ''cannot convert float infinity to integer''
   \<or> e = ValueError ''cannot convert float NaN to integer''"
  by (cases x) auto

lemma draft_error:
  assumes "draft env self context w2 = (Inl e, w3)"
  shows "e = OverflowError ''cannot convert float infinity to integer''
         \<or> e = ValueError ''cannot convert float NaN to integer''"
proof -
  from assms have "fst (get_response_length (diversity_config self) env w2) = Inl e"
    by (auto simp: draft_def get_diversity_injection_def chat_parse_qa_def
        split: prod.splits sum.splits)
  then show ?thesis by (auto simp: get_response_length_eq dest: int_of_float_error)
qed

lemma attempt_raised:
  assumes "attempt env self w = Finished (Raised e) w'"
  shows "e \<noteq> ValueError ''No search results found. Cannot build context.''"
proof -
  from assms have "(\<exists>context w2. draft env self context w2 = (Inl e, w')) \<or> e = AttributeError"
    by (auto simp: attempt_def split: prod.splits sum.splits if_splits option.splits)
  then show ?thesis by (auto dest: draft_error)
qed

lemma generate_context_error:
  assumes "generate env self w = (r, self', w')"
  shows "r \<noteq> Raised (ValueError ''No search results found. Cannot build context.'')"
  using assms
proof (induction "MAX_RETRIES - retry_count self" arbitrary: self w)
  case 0
  then have rc: "\<not> retry_count self < MAX_RETRIES" by simp
  show ?case
  proof (cases "attempt env self w")
    case (Retry w1)
    with "0.prems" rc have "r = SystemExit 1" by (simp add: generate_attempt retry_logic.simps)
    then show ?thesis by simp
  next
    case (Finished r1 w1)
    with "0.prems" have "r = r1" by (simp add: generate_attempt)
    with Finished attempt_raised [of env self w _ w1] show ?thesis by auto
  qed
next
  case (Suc k)
  then have rc: "retry_count self < MAX_RETRIES" by simp
  show ?case
  proof (cases "attempt env self w")
    case (Retry w1)
    let ?next = "self\<lparr>retry_count := retry_count self + 1\<rparr>"
    from Retry Suc.prems rc have g: "generate env ?next w1 = (r, self', w')"
      by (simp add: generate_attempt retry_logic_below_max)
    have k: "k = MAX_RETRIES - retry_count ?next" using Suc.hyps(2) by simp
    from Suc.hyps(1) [OF k g] show ?thesis .
  next
    case (Finished r1 w1)
    with Suc.prems have "r = r1" by (simp add: generate_attempt)
    with Finished attempt_raised [of env self w _ w1] show ?thesis by auto
  qed
qed

subsection \<open>A first pass that fails and a second that is accepted\<close>

lemma single_hop_fields:
  "diversity_config single_hop = main_config"
  "diversity_config (single_hop\<lparr>retry_count := 1\<rparr>) = main_config"
  "generator_class single_hop = SingleHopOneDocGenerator"
  "generator_class (single_hop\<lparr>retry_count := 1\<rparr>) = SingleHopOneDocGenerator"
  "retry_count single_hop = 0"
  by (simp_all add: single_hop_def new_generator_def)

lemma empty_first_seed:
  "seed_context empty_first_environment [] 
     = (Inl (ValueError ''No search results found. Cannot build context.''), seeded)"
  by (simp add: seed_context_def empty_first_environment_def fee_defs capability_defs
      context_defs)

lemma empty_first_second_pass:
  "attempt empty_first_environment (single_hop\<lparr>retry_count := 1\<rparr>) seeded
     = Finished (Returned (fee_sample SingleHopOneDocGenerator))
         (Get_search_records_by_ids # pass_calls @ seeded)"
  by (simp add: attempt_def seed_context_def draft_def empty_first_environment_def
      fee_defs capability_defs context_defs diversity_defs invokes_retry_tool_def
      single_hop_verify_qa_def verify_qa_chunk_connection_def get_chunk_content_by_ids_def
      fee_sample_def pass_calls_def)

lemma empty_first_sample:
  "generate empty_first_environment single_hop []
     = (Returned (fee_sample SingleHopOneDocGenerator), single_hop\<lparr>retry_count := 1\<rparr>,
        Get_search_records_by_ids # pass_calls @ seeded)"
proof -
  have first: "attempt empty_first_environment single_hop [] = Retry seeded"
    by (simp add: attempt_def empty_first_seed)
  have "retry_count single_hop < MAX_RETRIES"
    by (simp add: single_hop_fields MAX_RETRIES_def)
  from retry_logic_below_max [OF this, of empty_first_environment seeded]
  have g1: "generate empty_first_environment single_hop []
      = generate empty_first_environment (single_hop\<lparr>retry_count := 1\<rparr>) seeded"
    by (simp add: generate_attempt [of _ single_hop] first single_hop_fields)
  have g2: "generate empty_first_environment (single_hop\<lparr>retry_count := 1\<rparr>) seeded
      = (Returned (fee_sample SingleHopOneDocGenerator), single_hop\<lparr>retry_count := 1\<rparr>,
         Get_search_records_by_ids # pass_calls @ seeded)"
    by (subst generate_attempt) (simp only: empty_first_second_pass attempt_result.case)
  from g1 g2 show ?thesis by (rule trans)
qed

lemma abstaining_first_seed:
  "seed_context abstaining_first_environment [] = (Inr fee_context, seeded)"
  by (simp add: seed_context_def abstaining_first_environment_def fee_defs capability_defs
      context_defs)

lemma abstaining_first_draft:
  "draft abstaining_first_environment single_hop fee_context seeded
     = (Inr (fee_injection, \<lparr>tool_calls = [''_retry_logic''], parsed = None\<rparr>), drafted)"
  by (simp add: draft_def abstaining_first_environment_def fee_defs capability_defs
      diversity_defs)

lemma abstaining_first_second_pass:
  "attempt abstaining_first_environment (single_hop\<lparr>retry_count := 1\<rparr>) drafted
     = Finished (Returned (fee_sample SingleHopOneDocGenerator))
         (Get_search_records_by_ids # pass_calls @ drafted)"
  by (simp add: attempt_def seed_context_def draft_def abstaining_first_environment_def
      fee_defs capability_defs context_defs diversity_defs invokes_retry_tool_def
      single_hop_verify_qa_def verify_qa_chunk_connection_def get_chunk_content_by_ids_def
      fee_sample_def pass_calls_def)

lemma abstaining_first_sample:
  "generate abstaining_first_environment single_hop []
     = (Returned (fee_sample SingleHopOneDocGenerator), single_hop\<lparr>retry_count := 1\<rparr>,
        Get_search_records_by_ids # pass_calls @ drafted)"
proof -
  have first: "attempt abstaining_first_environment single_hop [] = Retry drafted"
    by (simp add: attempt_def abstaining_first_seed abstaining_first_draft
        invokes_retry_tool_def)
  have "retry_count single_hop < MAX_RETRIES"
    by (simp add: single_hop_fields MAX_RETRIES_def)
  from retry_logic_below_max [OF this, of abstaining_first_environment drafted]
  have g1: "generate abstaining_first_environment single_hop []
      = generate abstaining_first_environment (single_hop\<lparr>retry_count := 1\<rparr>) drafted"
    by (simp add: generate_attempt [of _ single_hop] first single_hop_fields)
  have g2: "generate abstaining_first_environment (single_hop\<lparr>retry_count := 1\<rparr>) drafted
      = (Returned (fee_sample SingleHopOneDocGenerator), single_hop\<lparr>retry_count := 1\<rparr>,
         Get_search_records_by_ids # pass_calls @ drafted)"
    by (subst generate_attempt) (simp only: abstaining_first_second_pass attempt_result.case)
  from g1 g2 show ?thesis by (rule trans)
qed

lemma once_accepting_seed:
  "seed_context once_accepting_environment [] = (Inr fee_context, seeded)"
  by (simp add: once_accepting_environment_def fee_seed_context seeded_def)

lemma once_accepting_draft:
  "draft once_accepting_environment single_hop fee_context seeded
     = (Inr (fee_injection, \<lparr>tool_calls = [], parsed = Some fee_qa\<rparr>), drafted)"
  by (simp add: once_accepting_environment_def fee_draft single_hop_fields seeded_def
      drafted_def)

lemma once_accepting_verify:
  "verify_qa (generator_class single_hop) once_accepting_environment fee_qa drafted
     = (\<lparr>is_correct = False,
         reason = ''Answer '' @ [CHR 0x27] @ ''$500'' @ [CHR 0x27]
           @ '' not found in specified chunks. Detailed reason: judged''\<rparr>, pass_calls)"
  by (simp add: single_hop_fields single_hop_verify_qa_def once_accepting_environment_def
      fee_chunk_connection drafted_def pass_calls_def fee_qa_fields)

subsection \<open>The loops of the factory\<close>








text \<open>
  The count is taken from the rounded product: for the total 100 and the floats that
  \<^verbatim>\<open>0.71\<close> and \<^verbatim>\<open>0.29\<close> denote it is 71 and 28, although the exact product of 100 and
  the first float is below 71.
\<close>

lemma num_samples_rounds_product:
  "num_samples_for_generator 100 (Finite (799388933858263 / 1125899906842624)) = Inr 71"
  "num_samples_for_generator 100 (Finite (5224175567749775 / 18014398509481984)) = Inr 28"
  "\<lfloor>100 * (799388933858263 / 1125899906842624 :: real)\<rfloor> = 70"
  by (simp_all add: num_samples_for_generator_def float_of_int_def round64_eval py_int_def)





lemma main_generators_config:
  "diversity_config single_hop = main_config" "diversity_config multi_hop = main_config"
  "generator_class single_hop = SingleHopOneDocGenerator"
  "generator_class multi_hop = MultiHopOneDocGenerator"
  by (simp_all add: single_hop_def multi_hop_def new_generator_def)

lemma example_counts:
  "num_samples_for_generator 6 (Finite (1 / 2)) = Inr 3"
  "num_samples_for_generator 128 (Finite 1) = Inr 128"
  "num_samples_for_generator 128 (Finite (1 / 128)) = Inr 1"
  by (simp_all add: num_samples_for_generator_def float_of_int_def round64_values py_int_def)


subsection \<open>The context builder\<close>

lemma build_context_loop_parts:
  "build_context_loop rs parts previous has =
     (parts @ concat (map parts_after (zip (previous # map (\<lambda>r. Some (title r)) rs) rs)),
      (if rs = [] then previous else Some (title (last rs))),
      has \<or> rs \<noteq> [])"
proof (induction rs arbitrary: parts previous has)
  case Nil
  show ?case by simp
next
  case (Cons r rs)
  show ?case
    by (simp add: Cons.IH Let_def parts_after_def title_header_def chunk_block_def
        get_search_record_title_def get_search_record_id_def get_search_record_content_def)
qed

text \<open>
  C5. The context builder raises its \<^verbatim>\<open>ValueError\<close> (the spec's EmptyContext) for the
  empty fragment sequence and only for it: every non-empty sequence yields a text.
\<close>

theorem build_context_fails_iff_empty:
  "(rs = [] \<longrightarrow>
      build_context rs = Inl (ValueError ''No search results found. Cannot build context.''))
   \<and> (rs \<noteq> [] \<longrightarrow> (\<exists>text. build_context rs = Inr text))"
  by (simp add: build_context_def build_context_loop_parts)

theorem build_context_fails_iff_empty_witness:
  "build_context [] = Inl (ValueError ''No search results found. Cannot build context.'')
   \<and> (\<exists>text. build_context
         [\<lparr>record_id = ''c1'', document_id = ''A'', part_number = 0, title = ''T'',
           content = ''Fee is $500''\<rparr>] = Inr text)"
  using build_context_fails_iff_empty [of "[]"]
    build_context_fails_iff_empty
      [of "[\<lparr>record_id = ''c1'', document_id = ''A'', part_number = 0, title = ''T'',
             content = ''Fee is $500''\<rparr>]"]
  by simp

text \<open>
  C4 as stated does not hold: a header is emitted only for a non-empty title. The second
  fragment below has a title (the empty one, which the title accessor returns when the
  field is missing) that differs from its predecessor's, and no header precedes its block.
\<close>

theorem build_context_header_counterexample:
  "title \<lparr>record_id = ''b'', document_id = ''B'', part_number = 0, title = [],
            content = ''y''\<rparr>
     \<noteq> title \<lparr>record_id = ''a'', document_id = ''A'', part_number = 0, title = ''T'',
            content = ''x''\<rparr>
   \<and> build_context
        [\<lparr>record_id = ''a'', document_id = ''A'', part_number = 0, title = ''T'',
          content = ''x''\<rparr>,
         \<lparr>record_id = ''b'', document_id = ''B'', part_number = 0, title = [],
          content = ''y''\<rparr>]
     = Inr (''Document Title: T\<newline>\<newline>CHUNK_ID: a\<newline>Content: x''
            @ ''\<newline>\<newline>CHUNK_ID: b\<newline>Content: y'')"
  by (simp add: build_context_def Let_def get_search_record_title_def
      get_search_record_id_def get_search_record_content_def)

text \<open>
  C4, amended. For a non-empty fragment sequence the context is the fragments' parts in
  the given order, joined by blank lines; a fragment contributes a title header exactly
  when its title is non-empty and differs from the title of the fragment immediately
  before it (a first fragment has no predecessor), and always contributes its labelled
  id-and-content block right after that header, if any. For the three fragments
  (A, T, 0), (A, T, 1), (B, U, 0) this gives two headers, T's before both chunks of A.
\<close>

theorem build_context_parts:
  "rs \<noteq> [] \<Longrightarrow>
   build_context rs
     = Inr (join ''\<newline>\<newline>'' (concat (map parts_after (zip (preceding_titles rs) rs))))"
  by (simp add: build_context_def build_context_loop_parts preceding_titles_def)

theorem build_context_parts_witness:
  "[\<lparr>record_id = ''a0'', document_id = ''A'', part_number = 0, title = ''T'',
      content = ''x''\<rparr>,
    \<lparr>record_id = ''a1'', document_id = ''A'', part_number = 1, title = ''T'',
      content = ''y''\<rparr>,
    \<lparr>record_id = ''b0'', document_id = ''B'', part_number = 0, title = ''U'',
      content = ''z''\<rparr>] \<noteq> []
   \<and> build_context
       [\<lparr>record_id = ''a0'', document_id = ''A'', part_number = 0, title = ''T'',
          content = ''x''\<rparr>,
        \<lparr>record_id = ''a1'', document_id = ''A'', part_number = 1, title = ''T'',
          content = ''y''\<rparr>,
        \<lparr>record_id = ''b0'', document_id = ''B'', part_number = 0, title = ''U'',
          content = ''z''\<rparr>]
     = Inr (join ''\<newline>\<newline>''
         [''Document Title: T'',
          ''CHUNK_ID: a0\<newline>Content: x'',
          ''CHUNK_ID: a1\<newline>Content: y'',
          ''Document Title: U'',
          ''CHUNK_ID: b0\<newline>Content: z''])"
  using build_context_parts
    [of "[\<lparr>record_id = ''a0'', document_id = ''A'', part_number = 0, title = ''T'',
            content = ''x''\<rparr>,
          \<lparr>record_id = ''a1'', document_id = ''A'', part_number = 1, title = ''T'',
            content = ''y''\<rparr>,
          \<lparr>record_id = ''b0'', document_id = ''B'', part_number = 0, title = ''U'',
            content = ''z''\<rparr>]"]
  by (simp add: preceding_titles_def parts_after_def title_header_def chunk_block_def)

subsection \<open>The response-length sampler\<close>

text \<open>
  C10. The claim has the sum floored and then clamped to the shift, which would make
  every result at least the shift. The sampler clamps first and converts afterwards,
  \<^verbatim>\<open>int(max(shift, length))\<close>, and \<^verbatim>\<open>int\<close> truncates: with the shift 3.5 and the draw
  0.25 it returns \<open>int(3.75) = 3\<close>, which is below the shift. And a draw that is
  infinite, as the draw for the mean 1000 is, ends the sampler with an
  \<^verbatim>\<open>OverflowError\<close> instead of an integer.
\<close>

theorem response_length_below_shift:
  "get_response_length half_shift_config accepting_environment []
     = (Inr 3, [Random_lognormal])
   \<and> float_less (Finite 3) (shift half_shift_config)
   \<and> get_response_length main_config overflowing_environment []
     = (Inl (OverflowError ''cannot convert float infinity to integer''), [Random_lognormal])"
  by (simp add: get_response_length_eq half_shift_config_def main_config_def
      overflowing_environment_def accepting_environment_def fee_environment_def
      py_max_def py_int_def round64_values)

subsection \<open>Construction of the factory\<close>

text \<open>
  C3 as stated does not hold: the constructor compares the sum that float arithmetic
  computes, not the sum of the proportions. The floats 0.99 and 0.02 both lie between 0
  and 1 and their sum is within one hundredth of 1, yet their float sum is the float
  1.01, whose float distance from 1.0 exceeds the float 0.01: the constructor raises.
\<close>

theorem boundary_plan_rejected_counterexample:
  "map snd boundary_plan
     = [Finite (4458563631096791 / 4503599627370496),
        Finite (5764607523034235 / 288230376151711744)]
   \<and> \<bar>4458563631096791 / 4503599627370496 + 5764607523034235 / 288230376151711744 - 1\<bar>
       \<le> (1 / 100 :: real)
   \<and> (0 :: real) \<le> 5764607523034235 / 288230376151711744
   \<and> (4458563631096791 / 4503599627370496 :: real) \<le> 1
   \<and> QAFactory_init accepting_environment boundary_plan ''data/q-a''
       = Inl (ValueError_percentages_sum (Finite (4548635623644201 / 4503599627370496)))"
  by (simp add: boundary_plan_def QAFactory_init_def py_sum_def accepting_environment_def
      fee_environment_def left_to_right_sum_def float_sub_def round64_eval)

text \<open>
  C3, amended. Constructing a \<^verbatim>\<open>QAFactory\<close> raises an error if and only if the sum of
  the percentages as the interpreter computes it in floats differs from 1.0 by more than
  the float 0.01, the difference and the comparison being those of float arithmetic, or
  some percentage is not a number between 0 and 1 (NaN is none); otherwise it yields the
  factory holding the generators as they were given. The constructor is a function of
  the plan and of the built-in \<^verbatim>\<open>sum\<close>: it makes no capability call and runs no
  generator.
\<close>

theorem QAFactory_init_fails_iff:
  "((\<exists>e. QAFactory_init env gens folder = Inl e) \<longleftrightarrow>
      float_less (round64 (1 / 100))
        (float_abs (float_sub (py_sum env (map snd gens)) (Finite 1)))
      \<or> (\<exists>p \<in> set (map snd gens). \<not> (\<exists>q. p = Finite q \<and> 0 \<le> q \<and> q \<le> 1)))
   \<and> ((\<forall>e. QAFactory_init env gens folder \<noteq> Inl e) \<longrightarrow>
        QAFactory_init env gens folder = Inr \<lparr>generators = gens, output_folder = folder\<rparr>)"
proof (cases "find (\<lambda>(generator, percentage).
    \<not> (float_le (Finite 0) percentage \<and> float_le percentage (Finite 1))) gens")
  case None
  then have "\<forall>p \<in> set (map snd gens). float_le (Finite 0) p \<and> float_le p (Finite 1)"
    by (auto simp: find_None_iff)
  then have "\<forall>p \<in> set (map snd gens). \<exists>q. p = Finite q \<and> 0 \<le> q \<and> q \<le> 1"
    by (simp add: float_le_unit)
  with None show ?thesis
    by (auto simp: QAFactory_init_def Let_def)
next
  case (Some gp)
  then have "gp \<in> set gens"
    and "\<not> (float_le (Finite 0) (snd gp) \<and> float_le (snd gp) (Finite 1))"
    by (auto dest: find_Some_member)
  then have "snd gp \<in> set (map snd gens)"
    and "\<not> (\<exists>q. snd gp = Finite q \<and> 0 \<le> q \<and> q \<le> 1)"
    by (simp_all add: float_le_unit)
  then have "\<exists>p \<in> set (map snd gens). \<not> (\<exists>q. p = Finite q \<and> 0 \<le> q \<and> q \<le> 1)"
    by blast
  with Some show ?thesis
    by (auto simp: QAFactory_init_def Let_def split: prod.splits)
qed

theorem QAFactory_init_fails_iff_witness:
  "QAFactory_init accepting_environment main_plan ''data/q-a''
     = Inr \<lparr>generators = main_plan, output_folder = ''data/q-a''\<rparr>
   \<and> (\<exists>e. QAFactory_init accepting_environment [(single_hop, Finite (1 / 2))] ''data/q-a''
            = Inl e)
   \<and> (\<exists>e. QAFactory_init accepting_environment
             [(single_hop, Finite (3 / 2)), (multi_hop, Finite (- (1 / 2)))] ''data/q-a''
            = Inl e)"
  using QAFactory_init_fails_iff
      [of accepting_environment main_plan "''data/q-a''", unfolded float_le_unit [symmetric]]
    QAFactory_init_fails_iff
      [of accepting_environment "[(single_hop, Finite (1 / 2))]" "''data/q-a''",
       unfolded float_le_unit [symmetric]]
    QAFactory_init_fails_iff
      [of accepting_environment
          "[(single_hop, Finite (3 / 2)), (multi_hop, Finite (- (1 / 2)))]" "''data/q-a''",
       unfolded float_le_unit [symmetric]]
  by (simp add: main_plan_def py_sum_def accepting_environment_def fee_environment_def
      left_to_right_sum_def float_sub_def round64_values round64_hundredth)

subsection \<open>The verification chains\<close>

text \<open>
  C6. The verdict of a strategy's chain is the conjunction of its predicates, evaluated
  in order and stopping at the first failure: the single-hop chain is the grounding
  (chunk-connection) predicate alone; the multi-hop chain runs grounding first and the
  multi-hop predicate only if grounding passed. When grounding fails the world is the
  one grounding left, so the multi-hop predicate, which always makes a capability call,
  was not run, and the returned reason ends with the reason of the predicate that failed.
\<close>

theorem verify_qa_chain:
  assumes "verify_qa_chunk_connection env qa w = (g, w1)"
    and "verify_qa_question_requires_multi_hop env qa w1 = (m, w2)"
  shows
    "verify_qa SingleHopOneDocGenerator env qa w =
       (if is_correct g
        then (\<lparr>is_correct = True, reason = ''All validation checks passed.''\<rparr>, w1)
        else (\<lparr>is_correct = False,
               reason = ''Answer '' @ [CHR 0x27] @ qa.ground_truth_answer qa @ [CHR 0x27]
                 @ '' not found in specified chunks. Detailed reason: '' @ reason g\<rparr>, w1))
     \<and> is_correct (fst (verify_qa MultiHopOneDocGenerator env qa w))
         = (is_correct g \<and> is_correct m)
     \<and> (\<not> is_correct g \<longrightarrow>
          verify_qa MultiHopOneDocGenerator env qa w =
            (\<lparr>is_correct = False,
              reason = ''Answer '' @ [CHR 0x27] @ qa.ground_truth_answer qa @ [CHR 0x27]
                @ '' not found in specified chunks. Detailed reason: '' @ reason g\<rparr>, w1))
     \<and> (is_correct g \<and> \<not> is_correct m \<longrightarrow>
          verify_qa MultiHopOneDocGenerator env qa w =
            (\<lparr>is_correct = False,
              reason = ''Question '' @ [CHR 0x27] @ qa.question qa @ [CHR 0x27]
                @ '' does not require multi-hop reasoning. Detailed reason: '' @ reason m\<rparr>,
             w2))
     \<and> (is_correct g \<and> is_correct m \<longrightarrow>
          verify_qa MultiHopOneDocGenerator env qa w =
            (\<lparr>is_correct = True, reason = ''All validation checks passed.''\<rparr>, w2))
     \<and> length w1 < length w2"
proof -
  have "length w1 < length w2"
    using multi_hop_check_extends_world [of w1 env qa] assms(2) by simp
  then show ?thesis
    using assms by (simp add: single_hop_verify_qa_def multi_hop_verify_qa_def)
qed

theorem verify_qa_chain_witness:
  "verify_qa SingleHopOneDocGenerator grounded_only_environment fee_qa []
     = (\<lparr>is_correct = True, reason = ''All validation checks passed.''\<rparr>,
        [Chat_parse_verification, Get_search_records_by_ids])
   \<and> verify_qa MultiHopOneDocGenerator grounded_only_environment fee_qa []
     = (\<lparr>is_correct = False,
         reason = ''Question '' @ [CHR 0x27] @ ''What is the fee?'' @ [CHR 0x27]
           @ '' does not require multi-hop reasoning. Detailed reason: judged''\<rparr>,
        [Chat_parse_verification, Get_search_records_by_ids,
         Chat_parse_verification, Get_search_records_by_ids])
   \<and> verify_qa MultiHopOneDocGenerator rejecting_environment fee_qa []
     = (\<lparr>is_correct = False,
         reason = ''Answer '' @ [CHR 0x27] @ ''$500'' @ [CHR 0x27]
           @ '' not found in specified chunks. Detailed reason: judged''\<rparr>,
        [Chat_parse_verification, Get_search_records_by_ids])"
proof -
  have g: "verify_qa_chunk_connection rejecting_environment fee_qa []
      = (\<lparr>is_correct = False, reason = ''judged''\<rparr>,
         [Chat_parse_verification, Get_search_records_by_ids])"
    by (simp add: rejecting_environment_def fee_chunk_connection)
  have m: "verify_qa_question_requires_multi_hop rejecting_environment fee_qa
        [Chat_parse_verification, Get_search_records_by_ids]
      = (\<lparr>is_correct = False, reason = ''judged''\<rparr>,
         [Chat_parse_verification, Get_search_records_by_ids,
          Chat_parse_verification, Get_search_records_by_ids])"
    by (simp add: rejecting_environment_def fee_requires_multi_hop)
  show ?thesis
    using verify_qa_chain [OF grounded_only_chunk_connection grounded_only_multi_hop]
      verify_qa_chain [OF g m]
    by (simp add: fee_qa_def)
qed

subsection \<open>One pass of the generation\<close>

text \<open>
  C7. Let the pass that \<open>generate\<close> starts in the world \<open>w\<close> fail in one of the three
  transient ways, leaving the world \<open>w1\<close>: the context cannot be built, the model calls
  the retry tool, or the verification fails; and let the retry counter be below
  \<open>MAX_RETRIES\<close>. Then the call goes on as a new pass from \<open>w1\<close> with the retry
  counter higher by exactly one, and what that pass and its successors yield is the
  result of the call: the counter the call leaves is higher than the one it found, by
  exactly one when the new pass finishes, and by one per pass after the first in general.
  The failure is not propagated: the result is not the error of the context builder,
  which is the only exception among the three failures. When the model called the retry
  tool, the failed pass made the seeding, diversity and drafting calls only: no
  verification call was made.
\<close>

theorem transient_failure_consumes_one_retry:
  assumes "retry_count self < MAX_RETRIES"
    and "(\<exists>e. seed_context env w = (Inl e, w1))
         \<or> (\<exists>context w2 injection qa_completion.
               seed_context env w = (Inr context, w2)
               \<and> draft env self context w2 = (Inr (injection, qa_completion), w1)
               \<and> invokes_retry_tool qa_completion)
         \<or> (\<exists>context w2 injection qa_completion w4 qa verify_qa_result.
               seed_context env w = (Inr context, w2)
               \<and> draft env self context w2 = (Inr (injection, qa_completion), w4)
               \<and> \<not> invokes_retry_tool qa_completion
               \<and> parsed qa_completion = Some qa
               \<and> verify_qa (generator_class self) env qa w4 = (verify_qa_result, w1)
               \<and> \<not> is_correct verify_qa_result)"
    and "generate env self w = (r, self', w')"
  shows "generate env (self\<lparr>retry_count := retry_count self + 1\<rparr>) w1 = (r, self', w')
     \<and> retry_count self + 1 \<le> retry_count self'
     \<and> seedings w1 = seedings w + 1
     \<and> seedings w' = seedings w1 + 1 + (retry_count self' - (retry_count self + 1))
     \<and> (\<forall>r2 w2. attempt env (self\<lparr>retry_count := retry_count self + 1\<rparr>) w1
                    = Finished r2 w2 \<longrightarrow>
           r = r2 \<and> self' = self\<lparr>retry_count := retry_count self + 1\<rparr> \<and> w' = w2)
     \<and> r \<noteq> Raised (ValueError ''No search results found. Cannot build context.'')
     \<and> (\<forall>context w2 injection qa_completion.
           seed_context env w = (Inr context, w2)
           \<and> draft env self context w2 = (Inr (injection, qa_completion), w1)
           \<and> invokes_retry_tool qa_completion \<longrightarrow>
             w1 = [Chat_parse_qa, Random_choice, Random_choice, Random_choice,
                   Random_lognormal, Get_all_chunks_of_document, Get_random_chunk] @ w)"
proof -
  let ?next = "self\<lparr>retry_count := retry_count self + 1\<rparr>"
  have a: "attempt env self w = Retry w1"
    using assms(2) by (auto simp: attempt_def)
  with assms(1,3) have g: "generate env ?next w1 = (r, self', w')"
    by (simp add: generate_attempt retry_logic_below_max)
  note inv = generate_retry_counter [OF g]
  have c: "retry_count self + 1 \<le> retry_count self'" using inv by simp
  have s1: "seedings w1 = seedings w + 1"
    using attempt_seedings(1) [of env self w w1] a by simp
  have s2: "seedings w' = seedings w1 + 1 + (retry_count self' - (retry_count self + 1))"
    using inv by simp
  have f: "\<forall>r2 w2. attempt env ?next w1 = Finished r2 w2 \<longrightarrow>
      r = r2 \<and> self' = ?next \<and> w' = w2"
    using g by (auto simp: generate_attempt)
  have e: "r \<noteq> Raised (ValueError ''No search results found. Cannot build context.'')"
    using generate_context_error [OF assms(3)] .
  have t: "\<forall>ctx w2 injection qa_completion.
      seed_context env w = (Inr ctx, w2)
      \<and> draft env self ctx w2 = (Inr (injection, qa_completion), w1)
      \<and> invokes_retry_tool qa_completion \<longrightarrow>
        w1 = [Chat_parse_qa, Random_choice, Random_choice, Random_choice,
              Random_lognormal, Get_all_chunks_of_document, Get_random_chunk] @ w"
  proof (intro allI impI)
    fix ctx w2 injection qa_completion
    assume h: "seed_context env w = (Inr ctx, w2)
      \<and> draft env self ctx w2 = (Inr (injection, qa_completion), w1)
      \<and> invokes_retry_tool qa_completion"
    then have "w2 = Get_all_chunks_of_document # Get_random_chunk # w"
      using seed_context_world [of env w] by simp
    moreover from h have "w1 = [Chat_parse_qa, Random_choice, Random_choice, Random_choice,
        Random_lognormal] @ w2"
      by (blast dest: draft_world)
    ultimately show "w1 = [Chat_parse_qa, Random_choice, Random_choice, Random_choice,
        Random_lognormal, Get_all_chunks_of_document, Get_random_chunk] @ w"
      by simp
  qed
  from g c s1 s2 f e t show ?thesis by blast
qed

theorem transient_failure_consumes_one_retry_witness:
  "retry_count single_hop < MAX_RETRIES
   \<and> seed_context empty_first_environment []
       = (Inl (ValueError ''No search results found. Cannot build context.''), seeded)
   \<and> generate empty_first_environment single_hop []
       = (Returned (fee_sample SingleHopOneDocGenerator), single_hop\<lparr>retry_count := 1\<rparr>,
          Get_search_records_by_ids # pass_calls @ seeded)
   \<and> generate empty_first_environment (single_hop\<lparr>retry_count := 1\<rparr>) seeded
       = (Returned (fee_sample SingleHopOneDocGenerator), single_hop\<lparr>retry_count := 1\<rparr>,
          Get_search_records_by_ids # pass_calls @ seeded)
   \<and> generate abstaining_first_environment single_hop []
       = (Returned (fee_sample SingleHopOneDocGenerator), single_hop\<lparr>retry_count := 1\<rparr>,
          Get_search_records_by_ids # pass_calls @ drafted)
   \<and> generate abstaining_first_environment (single_hop\<lparr>retry_count := 1\<rparr>) drafted
       = (Returned (fee_sample SingleHopOneDocGenerator), single_hop\<lparr>retry_count := 1\<rparr>,
          Get_search_records_by_ids # pass_calls @ drafted)
   \<and> generate once_accepting_environment single_hop []
       = (Returned (fee_sample SingleHopOneDocGenerator), single_hop\<lparr>retry_count := 1\<rparr>,
          second_pass_accepted)
   \<and> generate once_accepting_environment (single_hop\<lparr>retry_count := 1\<rparr>) pass_calls
       = (Returned (fee_sample SingleHopOneDocGenerator), single_hop\<lparr>retry_count := 1\<rparr>,
          second_pass_accepted)"
proof -
  have h: "retry_count single_hop < MAX_RETRIES"
    by (simp add: single_hop_fields MAX_RETRIES_def)
  have f1: "(\<exists>e. seed_context empty_first_environment [] = (Inl e, seeded))
      \<or> (\<exists>context w2 injection qa_completion.
            seed_context empty_first_environment [] = (Inr context, w2)
            \<and> draft empty_first_environment single_hop context w2
                = (Inr (injection, qa_completion), seeded)
            \<and> invokes_retry_tool qa_completion)
      \<or> (\<exists>context w2 injection qa_completion w4 qa verify_qa_result.
            seed_context empty_first_environment [] = (Inr context, w2)
            \<and> draft empty_first_environment single_hop context w2
                = (Inr (injection, qa_completion), w4)
            \<and> \<not> invokes_retry_tool qa_completion
            \<and> parsed qa_completion = Some qa
            \<and> verify_qa (generator_class single_hop) empty_first_environment qa w4
                = (verify_qa_result, seeded)
            \<and> \<not> is_correct verify_qa_result)"
    by (simp add: empty_first_seed)
  have f2: "(\<exists>e. seed_context abstaining_first_environment [] = (Inl e, drafted))
      \<or> (\<exists>context w2 injection qa_completion.
            seed_context abstaining_first_environment [] = (Inr context, w2)
            \<and> draft abstaining_first_environment single_hop context w2
                = (Inr (injection, qa_completion), drafted)
            \<and> invokes_retry_tool qa_completion)
      \<or> (\<exists>context w2 injection qa_completion w4 qa verify_qa_result.
            seed_context abstaining_first_environment [] = (Inr context, w2)
            \<and> draft abstaining_first_environment single_hop context w2
                = (Inr (injection, qa_completion), w4)
            \<and> \<not> invokes_retry_tool qa_completion
            \<and> parsed qa_completion = Some qa
            \<and> verify_qa (generator_class single_hop) abstaining_first_environment qa w4
                = (verify_qa_result, drafted)
            \<and> \<not> is_correct verify_qa_result)"
    by (simp add: abstaining_first_seed abstaining_first_draft invokes_retry_tool_def)
  have f3: "(\<exists>e. seed_context once_accepting_environment [] = (Inl e, pass_calls))
      \<or> (\<exists>context w2 injection qa_completion.
            seed_context once_accepting_environment [] = (Inr context, w2)
            \<and> draft once_accepting_environment single_hop context w2
                = (Inr (injection, qa_completion), pass_calls)
            \<and> invokes_retry_tool qa_completion)
      \<or> (\<exists>context w2 injection qa_completion w4 qa verify_qa_result.
            seed_context once_accepting_environment [] = (Inr context, w2)
            \<and> draft once_accepting_environment single_hop context w2
                = (Inr (injection, qa_completion), w4)
            \<and> \<not> invokes_retry_tool qa_completion
            \<and> parsed qa_completion = Some qa
            \<and> verify_qa (generator_class single_hop) once_accepting_environment qa w4
                = (verify_qa_result, pass_calls)
            \<and> \<not> is_correct verify_qa_result)"
    by (simp add: once_accepting_seed once_accepting_draft once_accepting_verify
        invokes_retry_tool_def)
  note t1 = transient_failure_consumes_one_retry [OF h f1 empty_first_sample]
  note t2 = transient_failure_consumes_one_retry [OF h f2 abstaining_first_sample]
  note t3 = transient_failure_consumes_one_retry [OF h f3 once_accepting_first_sample]
  from t1 have g1: "generate empty_first_environment (single_hop\<lparr>retry_count := 1\<rparr>) seeded
      = (Returned (fee_sample SingleHopOneDocGenerator), single_hop\<lparr>retry_count := 1\<rparr>,
         Get_search_records_by_ids # pass_calls @ seeded)"
    by (simp add: single_hop_fields)
  from t2 have g2: "generate abstaining_first_environment (single_hop\<lparr>retry_count := 1\<rparr>)
        drafted
      = (Returned (fee_sample SingleHopOneDocGenerator), single_hop\<lparr>retry_count := 1\<rparr>,
         Get_search_records_by_ids # pass_calls @ drafted)"
    by (simp add: single_hop_fields)
  from t3 have g3: "generate once_accepting_environment (single_hop\<lparr>retry_count := 1\<rparr>)
        pass_calls
      = (Returned (fee_sample SingleHopOneDocGenerator), single_hop\<lparr>retry_count := 1\<rparr>,
         second_pass_accepted)"
    by (simp add: single_hop_fields)
  from h empty_first_seed empty_first_sample g1 abstaining_first_sample g2
    once_accepting_first_sample g3
  show ?thesis by blast
qed



subsection \<open>Exhaustion of the retries\<close>

text \<open>
  C1. A generator as constructed (retry counter 0) whose verification always fails, in
  an environment whose drafts are usable and whose length sampler returns (its draw is
  finite), retries exactly \<open>MAX_RETRIES\<close> = 10 times, the
  retry counter running from 0 to 10 (these are the ten attempts that the retry logic
  numbers; with the first pass, \<open>generate\<close> is entered eleven times), and then ends
  with \<^verbatim>\<open>sys.exit(1)\<close>. The exit is not a skipped sample: a factory whose first generator
  with a non-zero share is this one ends with the same exit, without samples and without
  saving a file.
\<close>

theorem always_failing_verification_exhausts_retries:
  assumes "retry_count self = 0"
    and "\<forall>n p. \<not> is_correct (parse_verification_at env n p)"
    and "\<forall>n p. usable (parse_qa_at env n p)"
    and "\<forall>w2. \<exists>k. fst (get_response_length (diversity_config self) env w2) = Inr k"
  shows "\<exists>w'. generate env self w
            = (SystemExit 1, self\<lparr>retry_count := MAX_RETRIES\<rparr>, w')
          \<and> MAX_RETRIES = 10
          \<and> seedings w' = seedings w + 1 + MAX_RETRIES
          \<and> (\<forall>percentage rest folder number_of_samples.
                0 < requested number_of_samples percentage \<longrightarrow>
                QAFactory_generate env
                  \<lparr>generators = (self, percentage) # rest, output_folder = folder\<rparr>
                  number_of_samples w
                = (SystemExit 1,
                   \<lparr>generators = (self\<lparr>retry_count := MAX_RETRIES\<rparr>, percentage) # rest,
                    output_folder = folder\<rparr>, w'))"
proof -
  have "retry_count self \<le> MAX_RETRIES" using assms(1) by simp
  from exhausts_from [OF this, of w env] assms
  obtain w' where w': "generate env self w
        = (SystemExit 1, self\<lparr>retry_count := MAX_RETRIES\<rparr>, w')"
      "seedings w' = seedings w + 1 + MAX_RETRIES"
    by auto
  show ?thesis
    using w' QAFactory_generate_exit [OF w'(1)]
    by (intro exI [of _ w']) (simp add: MAX_RETRIES_def)
qed

theorem always_failing_verification_exhausts_retries_witness:
  "retry_count single_hop = 0
   \<and> (\<exists>w'. generate rejecting_environment single_hop []
              = (SystemExit 1, single_hop\<lparr>retry_count := 10\<rparr>, w')
          \<and> seedings w' = 11
          \<and> QAFactory_generate rejecting_environment
               \<lparr>generators = [(single_hop, Finite (1 / 2)), (multi_hop, Finite (1 / 2))],
                output_folder = ''data/q-a''\<rparr> 6 []
             = (SystemExit 1,
                \<lparr>generators = [(single_hop\<lparr>retry_count := 10\<rparr>, Finite (1 / 2)),
                               (multi_hop, Finite (1 / 2))],
                 output_folder = ''data/q-a''\<rparr>, w'))"
proof -
  have z: "retry_count single_hop = 0" by (simp add: single_hop_def new_generator_def)
  have v: "\<forall>n p. \<not> is_correct (parse_verification_at rejecting_environment n p)"
    by (simp add: rejecting_environment_def fee_verdict)
  have u: "\<forall>n p. usable (parse_qa_at rejecting_environment n p)"
    by (simp add: rejecting_environment_def fee_usable)
  have l: "\<forall>w2. \<exists>k.
      fst (get_response_length (diversity_config single_hop) rejecting_environment w2) = Inr k"
    by (simp add: rejecting_environment_def main_generators_config fee_response_length)
  have n: "0 < requested 6 (Finite (1 / 2))"
    by (simp add: requested_def example_counts)
  from always_failing_verification_exhausts_retries [OF z v u l, of "[]"]
  obtain w' where w': "generate rejecting_environment single_hop []
        = (SystemExit 1, single_hop\<lparr>retry_count := MAX_RETRIES\<rparr>, w')"
      "seedings w' = seedings [] + 1 + MAX_RETRIES"
      "\<And>percentage rest folder number_of_samples.
          0 < requested number_of_samples percentage \<Longrightarrow>
          QAFactory_generate rejecting_environment
            \<lparr>generators = (single_hop, percentage) # rest, output_folder = folder\<rparr>
            number_of_samples []
          = (SystemExit 1,
             \<lparr>generators = (single_hop\<lparr>retry_count := MAX_RETRIES\<rparr>, percentage) # rest,
              output_folder = folder\<rparr>, w')"
    by blast
  show ?thesis
    using z w'(1,2) w'(3) [OF n, of "[(multi_hop, Finite (1 / 2))]" "''data/q-a''"]
    by (intro conjI exI [of _ w']) (simp_all add: MAX_RETRIES_def seedings_def)
qed

subsection \<open>The scope of the retry counter\<close>

text \<open>
  C9 as stated does not hold: nothing resets the retry counter. In the environment below
  the first sample of a fresh single-hop generator is accepted on its second pass and
  leaves the counter at 1; the second sample, which is never accepted, starts from that
  count and ends the process after ten passes, that is after nine retries, not ten.
\<close>

theorem retry_budget_shared_counterexample:
  "generate once_accepting_environment single_hop []
     = (Returned (fee_sample SingleHopOneDocGenerator), single_hop\<lparr>retry_count := 1\<rparr>,
        second_pass_accepted)
   \<and> fst (generate once_accepting_environment (single_hop\<lparr>retry_count := 1\<rparr>)
            second_pass_accepted) = SystemExit 1
   \<and> seedings (snd (snd (generate once_accepting_environment
                            (single_hop\<lparr>retry_count := 1\<rparr>) second_pass_accepted)))
       = seedings second_pass_accepted + 10
   \<and> fst (generate_samples once_accepting_environment single_hop 2 [] []) = SystemExit 1"
proof -
  let ?used = "single_hop\<lparr>retry_count := 1\<rparr>"
  have rc: "retry_count ?used \<le> MAX_RETRIES" by (simp add: MAX_RETRIES_def)
  have len: "length second_pass_accepted = 19"
    by (simp add: second_pass_accepted_def pass_calls_def)
  have v: "\<forall>n\<ge>length second_pass_accepted. \<forall>p.
      \<not> is_correct (parse_verification_at once_accepting_environment n p)"
    by (simp add: len once_accepting_environment_def fee_verdict)
  have u: "\<forall>n\<ge>length second_pass_accepted. \<forall>p.
      usable (parse_qa_at once_accepting_environment n p)"
    by (simp add: once_accepting_environment_def fee_usable)
  have l: "\<forall>w2. \<exists>k.
      fst (get_response_length (diversity_config ?used) once_accepting_environment w2) = Inr k"
    by (simp add: once_accepting_environment_def single_hop_fields fee_response_length)
  from exhausts_from [OF rc v u l]
  obtain w' where w': "generate once_accepting_environment ?used second_pass_accepted
        = (SystemExit 1, ?used\<lparr>retry_count := MAX_RETRIES\<rparr>, w')"
      "seedings w' = seedings second_pass_accepted + (MAX_RETRIES + 1 - retry_count ?used)"
    by blast
  have two: "generate_samples once_accepting_environment single_hop (Suc (Suc 0)) [] []
      = (SystemExit 1, ?used\<lparr>retry_count := MAX_RETRIES\<rparr>, w')"
    using w'(1) by (simp add: once_accepting_first_sample)
  show ?thesis
    using once_accepting_first_sample w' two
    by (simp add: MAX_RETRIES_def numeral_2_eq_2)
qed

text \<open>
  C9, amended. The retry counter is state of the generator object: it is 0 when the
  generator is constructed, a call of \<open>generate\<close> never lowers it and raises it by the
  number of retries the call made (one less than its passes), and over the \<open>k\<close> samples
  that a factory requests from one generator it grows by the number of retries of all of
  them together, never beyond \<open>MAX_RETRIES\<close>: every sample starts from the count the
  generator's earlier samples left, and they share the one budget of ten retries.
\<close>

theorem retry_counter_never_reset:
  "retry_count (new_generator cls config) = 0
   \<and> (generate env self w = (r, self', w') \<longrightarrow>
        retry_count self \<le> retry_count self'
        \<and> seedings w' = seedings w + 1 + (retry_count self' - retry_count self))
   \<and> (generate_samples env self k samples w = (Returned xs, self', w') \<longrightarrow>
        retry_count self \<le> retry_count self'
        \<and> seedings w' = seedings w + k + (retry_count self' - retry_count self)
        \<and> (retry_count self \<le> MAX_RETRIES \<longrightarrow> retry_count self' \<le> MAX_RETRIES))"
proof (intro conjI impI)
  show "retry_count (new_generator cls config) = 0" by (simp add: new_generator_def)
next
  assume "generate env self w = (r, self', w')"
  from generate_retry_counter [OF this]
  show "retry_count self \<le> retry_count self'"
    and "seedings w' = seedings w + 1 + (retry_count self' - retry_count self)"
    by blast+
next
  assume "generate_samples env self k samples w = (Returned xs, self', w')"
  from generate_samples_invariant [OF this]
  show "retry_count self \<le> retry_count self'"
    and "seedings w' = seedings w + k + (retry_count self' - retry_count self)"
    and "retry_count self \<le> MAX_RETRIES \<Longrightarrow> retry_count self' \<le> MAX_RETRIES"
    by blast+
qed

theorem retry_counter_never_reset_witness:
  "generate once_accepting_environment single_hop []
     = (Returned (fee_sample SingleHopOneDocGenerator), single_hop\<lparr>retry_count := 1\<rparr>,
        second_pass_accepted)
   \<and> generate_samples once_accepting_environment single_hop 1 [] []
     = (Returned [fee_sample SingleHopOneDocGenerator], single_hop\<lparr>retry_count := 1\<rparr>,
        second_pass_accepted)
   \<and> retry_count single_hop = 0
   \<and> seedings second_pass_accepted = seedings [] + 1 + 1"
proof -
  have z: "retry_count single_hop = 0" by (simp add: single_hop_def new_generator_def)
  have one: "generate_samples once_accepting_environment single_hop 1 [] []
      = (Returned [fee_sample SingleHopOneDocGenerator], single_hop\<lparr>retry_count := 1\<rparr>,
         second_pass_accepted)"
    by (simp add: once_accepting_first_sample)
  show ?thesis
    using retry_counter_never_reset
      [of SingleHopOneDocGenerator main_config once_accepting_environment single_hop "[]"
          "Returned (fee_sample SingleHopOneDocGenerator)" "single_hop\<lparr>retry_count := 1\<rparr>"
          second_pass_accepted 1 "[]" "[fee_sample SingleHopOneDocGenerator]"]
      once_accepting_first_sample one z
    by simp
qed

subsection \<open>The allocation of the samples\<close>




end
